theory Spec2Isabelle
  imports Complex_Main
begin

section \<open>Embedding of \<open>ggg/main.py\<close>\<close>

text \<open>
  The simulation core of the top-down shooter, translated function by function.
  Python's \<open>int\<close> is \<^typ>\<open>int\<close>. Python's \<open>float\<close> and the coordinates of
  \<open>pygame.Vector2\<close> are idealised as \<^typ>\<open>real\<close>: rounding is not modelled, and
  infinities and NaN occur only among the values read from the save file. Every call of the \<open>random\<close> module reads the next element of an
  explicit stream of draws that the caller supplies. The module globals
  \<open>WINDOW_WIDTH\<close> and \<open>WINDOW_HEIGHT\<close>, which \<open>run\<close> overwrites with the screen size,
  are parameters of the functions that read them.
\<close>

subsection \<open>Config\<close>

definition PLAYER_RADIUS :: real where "PLAYER_RADIUS = 16"
definition ENEMY_RADIUS :: real where "ENEMY_RADIUS = 14"
definition PLAYER_MAX_HEALTH :: int where "PLAYER_MAX_HEALTH = 5"
definition BULLET_SPEED :: real where "BULLET_SPEED = 600"
definition BULLET_RADIUS :: real where "BULLET_RADIUS = 4"
definition BULLET_COOLDOWN_SEC :: real where "BULLET_COOLDOWN_SEC = 0.12"
definition BULLET_LIFETIME_SEC :: real where "BULLET_LIFETIME_SEC = 1.2"
definition ENEMY_SPAWN_EVERY_SEC :: real where "ENEMY_SPAWN_EVERY_SEC = 1.1"
definition ENEMY_SPAWN_ACCEL_EVERY_SEC :: real where "ENEMY_SPAWN_ACCEL_EVERY_SEC = 20"
definition ENEMY_SPAWN_ACCEL_FACTOR :: real where "ENEMY_SPAWN_ACCEL_FACTOR = 0.92"
definition INVULN_ON_HIT_SEC :: real where "INVULN_ON_HIT_SEC = 0.6"
definition LEVEL_KILLS_TO_BOSS_BASE :: int where "LEVEL_KILLS_TO_BOSS_BASE = 30"
definition LEVEL_KILLS_TO_BOSS_INC :: int where "LEVEL_KILLS_TO_BOSS_INC = 10"
definition NORMAL_DROP_CHANCE :: real where "NORMAL_DROP_CHANCE = 0.30"

subsection \<open>Exceptions, vectors, geometry\<close>

datatype error =
  ValueError | ZeroDivisionError | IndexError | TypeError | AttributeError | OSError
| OverflowError

text \<open>\<open>pygame.Vector2\<close>: a pair of coordinates with the operations the game uses.\<close>

type_synonym vec = "real \<times> real"

definition vsub :: "vec \<Rightarrow> vec \<Rightarrow> vec" where
  "vsub a b = (fst a - fst b, snd a - snd b)"

definition vscale :: "vec \<Rightarrow> real \<Rightarrow> vec" where
  "vscale v k = (fst v * k, snd v * k)"

definition length_squared :: "vec \<Rightarrow> real" where
  "length_squared v = fst v * fst v + snd v * snd v"

definition vlength :: "vec \<Rightarrow> real" where
  "vlength v = sqrt (length_squared v)"

text \<open>\<open>Vector2.normalize\<close> raises \<open>ValueError\<close> on a vector of length zero.\<close>

definition normalize :: "vec \<Rightarrow> error + vec" where
  "normalize v =
     (if vlength v = 0 then Inl ValueError
      else Inr (fst v / vlength v, snd v / vlength v))"

definition distance_to :: "vec \<Rightarrow> vec \<Rightarrow> real" where
  "distance_to a b = vlength (vsub b a)"

definition clamp :: "real \<Rightarrow> real \<Rightarrow> real \<Rightarrow> real" where
  "clamp v min_value max_value = max min_value (min v max_value)"

definition circle_intersects_circle :: "vec \<Rightarrow> real \<Rightarrow> vec \<Rightarrow> real \<Rightarrow> bool" where
  "circle_intersects_circle center_a radius_a center_b radius_b \<longleftrightarrow>
     distance_to center_a center_b \<le> radius_a + radius_b"

subsection \<open>The \<open>random\<close> module\<close>

text \<open>
  The generator is the stream of the values that the coming calls of
  \<open>random.random()\<close> return, each in \<open>[0, 1)\<close>. The other functions of the module are
  expressed through one draw: \<open>uniform(a, b)\<close> is \<open>a + (b - a) * random()\<close>, and
  \<open>choice\<close> and \<open>randint\<close> scale the draw to an index.
\<close>

type_synonym rng = "nat \<Rightarrow> real"

definition random_random :: "rng \<Rightarrow> real \<times> rng" where
  "random_random g = (g 0, \<lambda>n. g (Suc n))"

definition random_uniform :: "real \<Rightarrow> real \<Rightarrow> rng \<Rightarrow> real \<times> rng" where
  "random_uniform a b g = (let (r, g') = random_random g in (a + (b - a) * r, g'))"

definition random_choice :: "'a list \<Rightarrow> rng \<Rightarrow> 'a \<times> rng" where
  "random_choice xs g =
     (let (r, g') = random_random g
      in (xs ! min (length xs - 1) (nat \<lfloor>r * real (length xs)\<rfloor>), g'))"

definition random_randint :: "int \<Rightarrow> int \<Rightarrow> rng \<Rightarrow> int \<times> rng" where
  "random_randint a b g =
     (let (r, g') = random_random g
      in (a + min (b - a) (max 0 \<lfloor>r * real_of_int (b - a + 1)\<rfloor>), g'))"

subsection \<open>Entities\<close>

text \<open>
  Every entity class has \<open>position\<close> and \<open>radius\<close>; \<open>Enemy\<close> and \<open>Player\<close> also have
  \<open>health\<close>. The records share these fields by extension, so that the field names of
  the source stay what they are.
\<close>

record entity =
  position :: vec
  radius :: real

record bullet = entity +
  velocity :: vec
  pierce_remaining :: int
  lifetime :: real
  damage :: int

record living = entity +
  health :: int

text \<open>
  \<open>Enemy\<close> and its subclass \<open>ShooterEnemy\<close>: \<open>shooter\<close> is \<open>None\<close> for a plain enemy and
  holds \<open>(shoot_timer, shoot_cooldown)\<close> for a shooter.
\<close>

record enemy = living +
  speed :: real
  enemy_max_health :: int
  is_boss :: bool
  shooter :: "(real \<times> real) option"

record explosion = entity +
  max_radius :: real
  explosion_damage :: int
  explosion_lifetime :: real

record coin = entity +
  coin_value :: int
  coin_velocity :: vec

text \<open>\<open>Bullet.is_alive\<close>, with the window size as parameters.\<close>

definition is_alive :: "int \<Rightarrow> int \<Rightarrow> bullet \<Rightarrow> bool" where
  "is_alive WINDOW_WIDTH WINDOW_HEIGHT b =
     (if lifetime b \<le> 0 then False
      else
        let (x, y) = position b
        in - 50 \<le> x \<and> x \<le> real_of_int WINDOW_WIDTH + 50 \<and>
           - 50 \<le> y \<and> y \<le> real_of_int WINDOW_HEIGHT + 50)"

subsection \<open>class Player\<close>

record player = living +
  invuln_timer :: real
  shoot_cooldown :: real
  coins :: int
  speed_multiplier :: real
  fire_rate_multiplier :: real
  bullet_size_level :: int
  bullet_pierce_level :: int
  magnet_radius :: real
  max_health_bonus :: int
  armor :: int
  bullet_damage_level :: int
  coin_gain_level :: int
  dodge_level :: int
  regen_level :: int
  lifesteal_level :: int
  crit_level :: int
  aoe_on_kill_level :: int
  magnet_bonus_level :: int
  bullet_speed_level :: int
  regen_timer :: real
  bullet_speed_multiplier :: real
  lifesteal_kills :: int

text \<open>\<open>Player.__init__\<close>\<close>

definition Player :: "vec \<Rightarrow> player" where
  "Player pos =
     \<lparr>position = pos, radius = PLAYER_RADIUS, health = PLAYER_MAX_HEALTH,
      invuln_timer = 0, shoot_cooldown = 0, coins = 0, speed_multiplier = 1,
      fire_rate_multiplier = 1, bullet_size_level = 0, bullet_pierce_level = 0,
      magnet_radius = 60, max_health_bonus = 0, armor = 0, bullet_damage_level = 0,
      coin_gain_level = 0, dodge_level = 0, regen_level = 0, lifesteal_level = 0,
      crit_level = 0, aoe_on_kill_level = 0, magnet_bonus_level = 0,
      bullet_speed_level = 0, regen_timer = 0, bullet_speed_multiplier = 1,
      lifesteal_kills = 0\<rparr>"

definition max_health :: "player \<Rightarrow> int" where
  "max_health p = PLAYER_MAX_HEALTH + max_health_bonus p"

definition player_is_alive :: "player \<Rightarrow> bool" where
  "player_is_alive p \<longleftrightarrow> health p > 0"

text \<open>
  \<open>Player.try_shoot\<close> returns the bullet, if any, and the player with the cooldown
  reset. The division by \<open>fire_rate_multiplier\<close> raises \<open>ZeroDivisionError\<close> when the
  multiplier is zero.
\<close>

definition try_shoot :: "player \<Rightarrow> vec \<Rightarrow> error + (bullet option \<times> player)" where
  "try_shoot p aim_pos =
     (if shoot_cooldown p > 0 then Inr (None, p)
      else
        let direction = vsub aim_pos (position p)
        in if length_squared direction \<le> 1 / 10 ^ 6 then Inr (None, p)
           else
             case normalize direction of
               Inl e \<Rightarrow> Inl e
             | Inr direction \<Rightarrow>
                 let speed_mult =
                       bullet_speed_multiplier p *
                       (1 + 0.08 * real_of_int (bullet_speed_level p));
                     vel = vscale (vscale direction BULLET_SPEED) speed_mult
                 in if fire_rate_multiplier p = 0 then Inl ZeroDivisionError
                    else
                      let cooldown = BULLET_COOLDOWN_SEC / fire_rate_multiplier p;
                          p' = p\<lparr>shoot_cooldown := max 0.02 cooldown\<rparr>;
                          size_multiplier = 1 + 0.35 * real_of_int (bullet_size_level p');
                          rad = BULLET_RADIUS * size_multiplier;
                          pierce = bullet_pierce_level p';
                          dmg = 1 + bullet_damage_level p'
                      in Inr (Some \<lparr>position = position p', radius = rad,
                                     velocity = vel, pierce_remaining = pierce,
                                     lifetime = BULLET_LIFETIME_SEC, damage = dmg\<rparr>,
                              p'))"

text \<open>
  \<open>Player.take_hit\<close>. The draw for the dodge is made only when \<open>dodge_level\<close> is
  positive, as the \<open>and\<close> of the source evaluates its right side only then.
\<close>

definition take_hit :: "player \<Rightarrow> rng \<Rightarrow> player \<times> rng" where
  "take_hit p g =
     (if invuln_timer p > 0 then (p, g)
      else
        let (dodged, g1) =
              (if dodge_level p > 0
               then let (r, g') = random_random g
                    in (r < min 0.5 (0.05 * real_of_int (dodge_level p)), g')
               else (False, g))
        in if dodged then (p\<lparr>invuln_timer := 0.2\<rparr>, g1)
           else
             let p1 = (if armor p > 0 then p\<lparr>armor := armor p - 1\<rparr>
                       else p\<lparr>health := health p - 1\<rparr>)
             in (p1\<lparr>invuln_timer := INVULN_ON_HIT_SEC\<rparr>, g1))"

definition on_kill :: "player \<Rightarrow> player" where
  "on_kill p =
     (if lifesteal_level p > 0
      then
        let p1 = p\<lparr>lifesteal_kills := lifesteal_kills p + 1\<rparr>;
            heal_interval = max 1 (5 - lifesteal_level p1)
        in if lifesteal_kills p1 \<ge> heal_interval
           then
             let p2 = p1\<lparr>lifesteal_kills := 0\<rparr>
             in p2\<lparr>health := min (max_health p2) (health p2 + 1)\<rparr>
           else p1
      else p)"

subsection \<open>class EnemySpawner\<close>

record spawner =
  timer :: real
  current_interval :: real
  accel_timer :: real
  level :: int
  kills_this_level :: int
  boss_active :: bool
  level_transition_timer :: real
  boss_banner_timer :: real

text \<open>\<open>EnemySpawner.__init__\<close>\<close>

definition EnemySpawner :: spawner where
  "EnemySpawner =
     \<lparr>timer = ENEMY_SPAWN_EVERY_SEC, current_interval = ENEMY_SPAWN_EVERY_SEC,
      accel_timer = 0, level = 1, kills_this_level = 0, boss_active = False,
      level_transition_timer = 0, boss_banner_timer = 0\<rparr>"

text \<open>\<open>EnemySpawner.update\<close>: during a level transition only the transition timer moves.\<close>

definition EnemySpawner_update :: "real \<Rightarrow> spawner \<Rightarrow> spawner" where
  "EnemySpawner_update dt s =
     (if level_transition_timer s > 0
      then s\<lparr>level_transition_timer := level_transition_timer s - dt\<rparr>
      else
        let s1 = s\<lparr>timer := timer s - dt\<rparr>;
            s2 = s1\<lparr>accel_timer := accel_timer s1 + dt\<rparr>
        in if accel_timer s2 \<ge> ENEMY_SPAWN_ACCEL_EVERY_SEC
           then s2\<lparr>accel_timer := 0,
                   current_interval :=
                     max 0.25 (current_interval s2 * ENEMY_SPAWN_ACCEL_FACTOR)\<rparr>
           else s2)"

definition should_spawn :: "spawner \<Rightarrow> bool" where
  "should_spawn s \<longleftrightarrow> timer s \<le> 0 \<and> level_transition_timer s \<le> 0"

definition should_spawn_boss :: "spawner \<Rightarrow> bool" where
  "should_spawn_boss s =
     (if boss_active s then False
      else
        let need = LEVEL_KILLS_TO_BOSS_BASE + (level s - 1) * LEVEL_KILLS_TO_BOSS_INC
        in kills_this_level s \<ge> need)"

definition on_boss_killed :: "spawner \<Rightarrow> spawner" where
  "on_boss_killed s =
     (let s1 = s\<lparr>level := level s + 1\<rparr>;
          s2 = s1\<lparr>kills_this_level := 0\<rparr>;
          s3 = s2\<lparr>boss_active := False\<rparr>;
          s4 = s3\<lparr>current_interval := max 0.25 (current_interval s3 * 0.95)\<rparr>;
          s5 = s4\<lparr>timer := current_interval s4\<rparr>
      in s5\<lparr>level_transition_timer := 1.2\<rparr>)"

text \<open>
  The two operations that write \<open>current_interval\<close>, as events. \<open>spawner_trace\<close> runs a
  list of them from a given spawner and lists the interval before the first event and
  after every event.
\<close>

datatype spawner_event = Update real | Boss_killed

fun spawner_step :: "spawner \<Rightarrow> spawner_event \<Rightarrow> spawner" where
  "spawner_step s (Update dt) = EnemySpawner_update dt s"
| "spawner_step s Boss_killed = on_boss_killed s"

fun spawner_trace :: "spawner \<Rightarrow> spawner_event list \<Rightarrow> real list" where
  "spawner_trace s [] = [current_interval s]"
| "spawner_trace s (ev # evs) = current_interval s # spawner_trace (spawner_step s ev) evs"

fun non_increasing :: "real list \<Rightarrow> bool" where
  "non_increasing [] = True"
| "non_increasing [x] = True"
| "non_increasing (x # y # ys) = (y \<le> x \<and> non_increasing (y # ys))"

text \<open>
  \<open>EnemySpawner.spawn_boss\<close> returns the boss, the spawner and the generator after the
  two draws (the side, then the speed). Its argument \<open>player_pos\<close>, which the body never
  reads, is left out.
\<close>

definition spawn_boss :: "int \<Rightarrow> int \<Rightarrow> spawner \<Rightarrow> rng \<Rightarrow> enemy \<times> spawner \<times> rng" where
  "spawn_boss WINDOW_WIDTH WINDOW_HEIGHT s g =
     (let s1 = s\<lparr>boss_active := True\<rparr>;
          s2 = s1\<lparr>boss_banner_timer := 1\<rparr>;
          (side, g1) = random_choice [''top'', ''bottom'', ''left'', ''right''] g;
          pos = (if side = ''top''
                 then (real_of_int WINDOW_WIDTH / 2, - ENEMY_RADIUS * 4)
                 else if side = ''bottom''
                 then (real_of_int WINDOW_WIDTH / 2,
                       real_of_int WINDOW_HEIGHT + ENEMY_RADIUS * 4)
                 else if side = ''left''
                 then (- ENEMY_RADIUS * 4, real_of_int WINDOW_HEIGHT / 2)
                 else (real_of_int WINDOW_WIDTH + ENEMY_RADIUS * 4,
                       real_of_int WINDOW_HEIGHT / 2));
          base_hp = 280 + 120 * (level s2 - 1);
          (sp, g2) = random_uniform 100 140 g1
      in (\<lparr>position = pos, radius = 34, health = base_hp, speed = sp,
           enemy_max_health = base_hp, is_boss = True, shooter = None\<rparr>,
          s2, g2))"

subsection \<open>The match state of \<open>run\<close>\<close>

text \<open>
  The local variables of \<open>run\<close> that the collision code reads and writes. The list
  \<open>coins\<close> of the source is \<open>coin_list\<close> here, since \<open>coins\<close> is the player's balance.
\<close>

record world =
  player :: player
  bullets :: "bullet list"
  enemies :: "enemy list"
  coin_list :: "coin list"
  explosions :: "explosion list"
  spawner :: spawner
  score :: int
  rng :: rng

text \<open>The five overlay flags that, with the player's death, suspend the simulation.\<close>

record overlays =
  paused :: bool
  shop_open :: bool
  item_shop_open :: bool
  console_open :: bool
  admin_panel_open :: bool

definition simulation_active :: "overlays \<Rightarrow> player \<Rightarrow> bool" where
  "simulation_active ui p \<longleftrightarrow>
     \<not> paused ui \<and> \<not> shop_open ui \<and> \<not> item_shop_open ui \<and> \<not> console_open ui \<and>
     \<not> admin_panel_open ui \<and> player_is_alive p"

subsection \<open>Collisions: bullets vs enemies\<close>

text \<open>The loop \<open>for _ in range(14)\<close> of the boss drop: two draws for each coin.\<close>

fun boss_coins :: "nat \<Rightarrow> vec \<Rightarrow> coin list \<Rightarrow> rng \<Rightarrow> coin list \<times> rng" where
  "boss_coins 0 pos cs g = (cs, g)"
| "boss_coins (Suc n) pos cs g =
     (let (vx, g1) = random_uniform (- 180) 180 g;
          (vy, g2) = random_uniform (- 180) 180 g1
      in boss_coins n pos
           (cs @ [\<lparr>position = pos, radius = 6, coin_value = 2, coin_velocity = (vx, vy)\<rparr>])
           g2)"

text \<open>
  The body of \<open>if e.health <= 0\<close> up to the bullet handling, block by block. First the
  explosion of \<open>if player.aoe_on_kill_level > 0\<close>.
\<close>

definition aoe_explosion :: "enemy \<Rightarrow> world \<Rightarrow> world" where
  "aoe_explosion e w =
     (let lvl = aoe_on_kill_level (player w)
      in if lvl > 0
         then w\<lparr>explosions := explosions w @
                   [\<lparr>position = position e, radius = 0,
                     max_radius = real_of_int (40 + 10 * lvl),
                     explosion_damage = 1 + lvl, explosion_lifetime = 0.3\<rparr>]\<rparr>
         else w)"

text \<open>The branch \<open>if e.is_boss\<close>: the coins, \<open>on_boss_killed\<close>, then the draw for the armor.\<close>

definition boss_drop :: "enemy \<Rightarrow> world \<Rightarrow> world" where
  "boss_drop e w =
     (let (cs, g1) = boss_coins 14 (position e) (coin_list w) (rng w);
          w1 = w\<lparr>coin_list := cs, rng := g1\<rparr>;
          w2 = w1\<lparr>spawner := on_boss_killed (spawner w1)\<rparr>;
          (r, g2) = random_random (rng w2);
          w3 = w2\<lparr>rng := g2\<rparr>
      in if r < 0.5
         then w3\<lparr>player := (player w3)\<lparr>armor := armor (player w3) + 1\<rparr>\<rparr>
         else w3)"

text \<open>The branch \<open>else\<close>: the drop of a plain enemy.\<close>

definition normal_drop :: "enemy \<Rightarrow> world \<Rightarrow> world" where
  "normal_drop e w =
     (let (r, g1) = random_random (rng w);
          w1 = w\<lparr>rng := g1\<rparr>
      in if r < NORMAL_DROP_CHANCE
         then
           let (r2, g2) = random_random (rng w1);
               coin_value = (if r2 < 0.85 then 1 else 2);
               (vx, g3) = random_uniform (- 40) 40 g2;
               (vy, g4) = random_uniform (- 40) 40 g3
           in w1\<lparr>coin_list := coin_list w1 @
                    [\<lparr>position = position e, radius = 6,
                      coin_value = coin_value, coin_velocity = (vx, vy)\<rparr>],
                  rng := g4\<rparr>
         else w1)"

text \<open>
  The whole body: score, lifesteal, explosion, drop, and the kill counter, which is
  incremented for a boss as well, after \<open>on_boss_killed\<close> has run.
\<close>

definition kill_effects :: "enemy \<Rightarrow> world \<Rightarrow> world" where
  "kill_effects e w =
     (let w1 = w\<lparr>score := score w + 1\<rparr>;
          w2 = w1\<lparr>player := on_kill (player w1)\<rparr>;
          w3 = aoe_explosion e w2;
          w4 = (if is_boss e then boss_drop e w3 else normal_drop e w3)
      in w4\<lparr>spawner :=
             (spawner w4)\<lparr>kills_this_level := kills_this_level (spawner w4) + 1\<rparr>\<rparr>)"

text \<open>What a hit does to the bullet, whether the enemy died or not.\<close>

definition consume :: "bullet \<Rightarrow> bullet" where
  "consume b =
     (if pierce_remaining b > 0 then b\<lparr>pierce_remaining := pierce_remaining b - 1\<rparr>
      else b\<lparr>lifetime := 0\<rparr>)"

text \<open>
  The inner loop \<open>for b in bullets\<close> for one enemy. It stops at the first bullet that
  overlaps the enemy (\<open>break\<close>) and returns \<open>dead\<close>, the enemy, the bullet list with
  that bullet updated in place, and the state. It tests every bullet of the list,
  also one whose lifetime an earlier enemy of the same pass has set to zero.
\<close>

fun bullets_loop :: "enemy \<Rightarrow> bullet list \<Rightarrow> world \<Rightarrow> bool \<times> enemy \<times> bullet list \<times> world" where
  "bullets_loop e [] w = (False, e, [], w)"
| "bullets_loop e (b # bs) w =
     (if circle_intersects_circle (position e) (radius e) (position b) (radius b)
      then
        let e1 = e\<lparr>health := health e - 1\<rparr>
        in if health e1 \<le> 0 then (True, e1, consume b # bs, kill_effects e1 w)
           else (False, e1, consume b # bs, w)
      else
        let (dead, e', bs', w') = bullets_loop e bs w
        in (dead, e', b # bs', w'))"

text \<open>The outer loop \<open>for e in enemies\<close>, collecting \<open>alive_enemies\<close>.\<close>

fun enemies_loop :: "enemy list \<Rightarrow> enemy list \<Rightarrow> world \<Rightarrow> enemy list \<times> world" where
  "enemies_loop [] alive_enemies w = (alive_enemies, w)"
| "enemies_loop (e # es) alive_enemies w =
     (let (dead, e', bs', w') = bullets_loop e (bullets w) w;
          w'' = w'\<lparr>bullets := bs'\<rparr>
      in enemies_loop es (if \<not> dead then alive_enemies @ [e'] else alive_enemies) w'')"

text \<open>
  The whole block under \<open># Collisions: bullets vs enemies\<close>: the two loops, the purge of
  the bullets, and the boss gate.
\<close>

definition collide_bullets_enemies :: "int \<Rightarrow> int \<Rightarrow> overlays \<Rightarrow> world \<Rightarrow> world" where
  "collide_bullets_enemies WINDOW_WIDTH WINDOW_HEIGHT ui w =
     (if simulation_active ui (player w)
      then
        let (alive_enemies, w1) = enemies_loop (enemies w) [] w;
            w2 = w1\<lparr>enemies := alive_enemies\<rparr>;
            w3 = w2\<lparr>bullets := filter (is_alive WINDOW_WIDTH WINDOW_HEIGHT) (bullets w2)\<rparr>
        in if should_spawn_boss (spawner w3)
           then
             let (boss, s', g') =
                   spawn_boss WINDOW_WIDTH WINDOW_HEIGHT (spawner w3) (rng w3)
             in w3\<lparr>enemies := enemies w3 @ [boss], spawner := s', rng := g'\<rparr>
           else w3
      else w)"

subsection \<open>The upgrade shop\<close>

text \<open>
  The shop counters of \<open>run\<close> and the page shown. \<open>save_state()\<close>, which every purchase
  calls, writes a file and changes none of these values.
\<close>

record shop =
  speed_levels :: int
  firerate_levels :: int
  pierce_levels :: int
  size_levels :: int
  magnet_levels :: int
  hp_levels :: int
  shop_page :: int

text \<open>
  List indexing as Python does it: a negative index counts from the end, and an index
  outside the list raises \<open>IndexError\<close>.
\<close>

definition py_index :: "'a list \<Rightarrow> int \<Rightarrow> error + 'a" where
  "py_index xs i =
     (let n = int (length xs);
          j = (if i < 0 then i + n else i)
      in if 0 \<le> j \<and> j < n then Inr (xs ! nat j) else Inl IndexError)"

text \<open>One entry of the dictionary: \<open>table[lvl] if lvl < limit else 0\<close>.\<close>

definition cost_entry :: "int list \<Rightarrow> int \<Rightarrow> int \<Rightarrow> error + int" where
  "cost_entry table limit lvl = (if lvl < limit then py_index table lvl else Inr 0)"

definition bind_error :: "error + 'a \<Rightarrow> ('a \<Rightarrow> error + 'b) \<Rightarrow> error + 'b" where
  "bind_error r f = (case r of Inl e \<Rightarrow> Inl e | Inr v \<Rightarrow> f v)"

record costs =
  speed_cost :: int
  firerate_cost :: int
  pierce_cost :: int
  size_cost :: int
  magnet_cost :: int
  hp_cost :: int
  dmg_cost :: int
  coin_cost :: int

text \<open>\<open>compute_costs\<close>: the entries are evaluated in the order of the dictionary display.\<close>

definition compute_costs :: "player \<Rightarrow> shop \<Rightarrow> error + costs" where
  "compute_costs p sh =
     bind_error (cost_entry [10, 20, 35, 55] 4 (speed_levels sh)) (\<lambda>c1.
     bind_error (cost_entry [12, 24, 40, 60, 85] 5 (firerate_levels sh)) (\<lambda>c2.
     bind_error (cost_entry [15, 30, 50] 3 (pierce_levels sh)) (\<lambda>c3.
     bind_error (cost_entry [12, 24, 40] 3 (size_levels sh)) (\<lambda>c4.
     bind_error (cost_entry [10, 20, 32, 48] 4 (magnet_levels sh)) (\<lambda>c5.
     bind_error (cost_entry [20, 40, 70, 110, 160] 5 (hp_levels sh)) (\<lambda>c6.
     bind_error (cost_entry [18, 36, 60, 90, 130] 5 (bullet_damage_level p)) (\<lambda>c7.
     bind_error (cost_entry [14, 28, 50] 3 (coin_gain_level p)) (\<lambda>c8.
       Inr \<lparr>speed_cost = c1, firerate_cost = c2, pierce_cost = c3, size_cost = c4,
            magnet_cost = c5, hp_cost = c6, dmg_cost = c7, coin_cost = c8\<rparr>))))))))"

text \<open>
  The purchase pattern that the handler repeats for each upgrade:
  \<open>if cost > 0 and player.coins >= cost: player.coins -= cost; ...\<close>, the dots being
  the effect of the upgrade.
\<close>

definition buy :: "int \<Rightarrow> (player \<times> shop \<Rightarrow> player \<times> shop) \<Rightarrow> player \<times> shop \<Rightarrow> player \<times> shop" where
  "buy cost effect ps =
     (let (p, sh) = ps
      in if cost > 0 \<and> coins p \<ge> cost then effect (p\<lparr>coins := coins p - cost\<rparr>, sh)
         else ps)"

definition upgrade_speed :: "player \<times> shop \<Rightarrow> player \<times> shop" where
  "upgrade_speed ps =
     (let (p, sh) = ps
      in (p\<lparr>speed_multiplier := speed_multiplier p * 1.12\<rparr>,
          sh\<lparr>speed_levels := speed_levels sh + 1\<rparr>))"

definition upgrade_firerate :: "player \<times> shop \<Rightarrow> player \<times> shop" where
  "upgrade_firerate ps =
     (let (p, sh) = ps
      in (p\<lparr>fire_rate_multiplier := fire_rate_multiplier p * 1.15\<rparr>,
          sh\<lparr>firerate_levels := firerate_levels sh + 1\<rparr>))"

definition upgrade_pierce :: "player \<times> shop \<Rightarrow> player \<times> shop" where
  "upgrade_pierce ps =
     (let (p, sh) = ps
      in (p\<lparr>bullet_pierce_level := bullet_pierce_level p + 1\<rparr>,
          sh\<lparr>pierce_levels := pierce_levels sh + 1\<rparr>))"

definition upgrade_size :: "player \<times> shop \<Rightarrow> player \<times> shop" where
  "upgrade_size ps =
     (let (p, sh) = ps
      in (p\<lparr>bullet_size_level := bullet_size_level p + 1\<rparr>,
          sh\<lparr>size_levels := size_levels sh + 1\<rparr>))"

definition upgrade_magnet :: "player \<times> shop \<Rightarrow> player \<times> shop" where
  "upgrade_magnet ps =
     (let (p, sh) = ps
      in (p\<lparr>magnet_radius := magnet_radius p + 60\<rparr>,
          sh\<lparr>magnet_levels := magnet_levels sh + 1\<rparr>))"

definition upgrade_hp :: "player \<times> shop \<Rightarrow> player \<times> shop" where
  "upgrade_hp ps =
     (let (p, sh) = ps;
          p1 = p\<lparr>max_health_bonus := max_health_bonus p + 1\<rparr>
      in (p1\<lparr>health := min (max_health p1) (health p1 + 1)\<rparr>,
          sh\<lparr>hp_levels := hp_levels sh + 1\<rparr>))"

definition upgrade_dmg :: "player \<times> shop \<Rightarrow> player \<times> shop" where
  "upgrade_dmg ps =
     (let (p, sh) = ps in (p\<lparr>bullet_damage_level := bullet_damage_level p + 1\<rparr>, sh))"

definition upgrade_coin :: "player \<times> shop \<Rightarrow> player \<times> shop" where
  "upgrade_coin ps =
     (let (p, sh) = ps in (p\<lparr>coin_gain_level := coin_gain_level p + 1\<rparr>, sh))"

datatype key =
  K_1 | K_2 | K_3 | K_4 | K_5 | K_6 | K_7 | K_8
| K_KP1 | K_KP2 | K_KP3 | K_KP4 | K_KP5 | K_KP6 | K_KP7 | K_KP8
| K_LEFT | K_RIGHT | K_other

text \<open>
  The \<open>if shop_open:\<close> part of the \<open>KEYDOWN\<close> handler. The costs are computed once, before
  the tests of the key; an \<open>IndexError\<close> of \<open>compute_costs\<close> leaves the handler.
\<close>

definition shop_keydown :: "key \<Rightarrow> player \<times> shop \<Rightarrow> error + player \<times> shop" where
  "shop_keydown k ps =
     bind_error (compute_costs (fst ps) (snd ps)) (\<lambda>costs.
       let s1 = (if k = K_1 \<or> k = K_KP1 then buy (speed_cost costs) upgrade_speed ps else ps);
           s2 = (if k = K_2 \<or> k = K_KP2 then buy (firerate_cost costs) upgrade_firerate s1
                 else s1);
           s3 = (if k = K_3 \<or> k = K_KP3 then buy (pierce_cost costs) upgrade_pierce s2
                 else s2);
           s4 = (if k = K_4 \<or> k = K_KP4 then buy (size_cost costs) upgrade_size s3 else s3);
           s5 = (if k = K_5 \<or> k = K_KP5 then buy (magnet_cost costs) upgrade_magnet s4
                 else s4);
           s6 = (if k = K_6 \<or> k = K_KP6 then buy (hp_cost costs) upgrade_hp s5 else s5);
           s7 = (if k = K_LEFT then (fst s6, (snd s6)\<lparr>shop_page := 0\<rparr>) else s6);
           s8 = (if k = K_RIGHT then (fst s7, (snd s7)\<lparr>shop_page := 1\<rparr>) else s7)
       in if shop_page (snd s8) = 1
          then
            let s9 = (if k = K_7 \<or> k = K_KP7 then buy (dmg_cost costs) upgrade_dmg s8
                      else s8)
            in Inr (if k = K_8 \<or> k = K_KP8 then buy (coin_cost costs) upgrade_coin s9
                    else s9)
          else Inr s8)"

fun shop_keys :: "key list \<Rightarrow> player \<times> shop \<Rightarrow> error + player \<times> shop" where
  "shop_keys [] ps = Inr ps"
| "shop_keys (k # ks) ps = bind_error (shop_keydown k ps) (shop_keys ks)"

text \<open>
  The click handler of the shop (\<open>MOUSEBUTTONDOWN\<close> while the shop is open). The costs
  are computed once; then, for every button under the pointer, in the order of the
  buttons, the \<open>if\<close>/\<open>elif\<close> chain on its index \<open>idx\<close> runs. \<open>hits\<close> lists the indices
  of the buttons under the pointer. The two buttons of page 2 have the indices 0 and 1,
  which the first two branches take on every page.
\<close>

definition click_button :: "costs \<Rightarrow> nat \<Rightarrow> player \<times> shop \<Rightarrow> player \<times> shop" where
  "click_button costs idx ps =
     (if idx = 0 then buy (speed_cost costs) upgrade_speed ps
      else if idx = 1 then buy (firerate_cost costs) upgrade_firerate ps
      else if idx = 2 then buy (pierce_cost costs) upgrade_pierce ps
      else if idx = 3 then buy (size_cost costs) upgrade_size ps
      else if idx = 4 then buy (magnet_cost costs) upgrade_magnet ps
      else if idx = 5 \<and> shop_page (snd ps) = 0 then buy (hp_cost costs) upgrade_hp ps
      else if shop_page (snd ps) = 1 \<and> idx = 0 then buy (dmg_cost costs) upgrade_dmg ps
      else if shop_page (snd ps) = 1 \<and> idx = 1 then buy (coin_cost costs) upgrade_coin ps
      else ps)"

definition shop_click :: "nat list \<Rightarrow> player \<times> shop \<Rightarrow> error + player \<times> shop" where
  "shop_click hits ps =
     bind_error (compute_costs (fst ps) (snd ps)) (\<lambda>costs.
       Inr (fold (click_button costs) hits ps))"

subsection \<open>The item shop\<close>

text \<open>\<open>int(x)\<close> of a float truncates towards zero.\<close>

definition int_of_float :: "real \<Rightarrow> int" where
  "int_of_float x = (if x \<ge> 0 then \<lfloor>x\<rfloor> else \<lceil>x\<rceil>)"

text \<open>\<open>int(base_cost * (1 + 0.5 * lvl))\<close>, the price of an item at level \<open>lvl\<close>.\<close>

definition item_cost :: "int \<Rightarrow> int \<Rightarrow> int" where
  "item_cost base_cost lvl =
     int_of_float (real_of_int base_cost * (1 + 0.5 * real_of_int lvl))"

text \<open>
  The \<open>if\<close>/\<open>elif\<close> chain that handles a click on the button labelled with the letter
  \<open>kc\<close>.
\<close>

definition item_shop_buy :: "char \<Rightarrow> player \<Rightarrow> rng \<Rightarrow> player \<times> rng" where
  "item_shop_buy kc p g =
     (if kc = CHR ''Q'' \<and> coins p \<ge> item_cost 16 (dodge_level p)
      then
        let p1 = p\<lparr>coins := coins p - item_cost 16 (dodge_level p)\<rparr>
        in (p1\<lparr>dodge_level := dodge_level p1 + 1\<rparr>, g)
      else if kc = CHR ''W'' \<and> coins p \<ge> item_cost 20 (regen_level p)
      then
        let p1 = p\<lparr>coins := coins p - item_cost 20 (regen_level p)\<rparr>
        in (p1\<lparr>regen_level := regen_level p1 + 1\<rparr>, g)
      else if kc = CHR ''E'' \<and> coins p \<ge> item_cost 28 (lifesteal_level p)
      then
        let p1 = p\<lparr>coins := coins p - item_cost 28 (lifesteal_level p)\<rparr>
        in (p1\<lparr>lifesteal_level := lifesteal_level p1 + 1\<rparr>, g)
      else if kc = CHR ''R'' \<and> coins p \<ge> item_cost 24 (crit_level p)
      then
        let p1 = p\<lparr>coins := coins p - item_cost 24 (crit_level p)\<rparr>
        in (p1\<lparr>crit_level := crit_level p1 + 1\<rparr>, g)
      else if kc = CHR ''T'' \<and> coins p \<ge> item_cost 30 (aoe_on_kill_level p)
      then
        let p1 = p\<lparr>coins := coins p - item_cost 30 (aoe_on_kill_level p)\<rparr>
        in (p1\<lparr>aoe_on_kill_level := aoe_on_kill_level p1 + 1\<rparr>, g)
      else if kc = CHR ''Y'' \<and> coins p \<ge> item_cost 12 (magnet_bonus_level p)
      then
        let p1 = p\<lparr>coins := coins p - item_cost 12 (magnet_bonus_level p)\<rparr>;
            p2 = p1\<lparr>magnet_bonus_level := magnet_bonus_level p1 + 1\<rparr>
        in (p2\<lparr>magnet_radius := magnet_radius p2 + 20\<rparr>, g)
      else if kc = CHR ''U'' \<and> coins p \<ge> item_cost 14 (bullet_speed_level p)
      then
        let p1 = p\<lparr>coins := coins p - item_cost 14 (bullet_speed_level p)\<rparr>
        in (p1\<lparr>bullet_speed_level := bullet_speed_level p1 + 1\<rparr>, g)
      else if kc = CHR ''I'' \<and> coins p \<ge> 22
      then
        let p1 = p\<lparr>coins := coins p - 22\<rparr>
        in (p1\<lparr>armor := armor p1 + 1\<rparr>, g)
      else if kc = CHR ''O'' \<and> coins p \<ge> 18
      then
        let p1 = p\<lparr>coins := coins p - 18\<rparr>
        in (p1\<lparr>health := min (max_health p1) (health p1 + 1)\<rparr>, g)
      else if kc = CHR ''P'' \<and> coins p \<ge> 26
      then
        let p1 = p\<lparr>coins := coins p - 26\<rparr>;
            (choice, g1) = random_choice [''armor'', ''heal'', ''dmg'', ''coins''] g
        in if choice = ''armor'' then (p1\<lparr>armor := armor p1 + 1\<rparr>, g1)
           else if choice = ''heal''
           then (p1\<lparr>health := min (max_health p1) (health p1 + 1)\<rparr>, g1)
           else if choice = ''dmg''
           then (p1\<lparr>bullet_damage_level := bullet_damage_level p1 + 1\<rparr>, g1)
           else
             let (n, g2) = random_randint 5 12 g1
             in (p1\<lparr>coins := coins p1 + n\<rparr>, g2)
      else (p, g))"

subsection \<open>Loading the save file\<close>

text \<open>
  A float as \<open>json.load\<close> and \<open>float\<close> produce it: a finite number, an infinity
  (\<open>json.load\<close> gives one for \<open>Infinity\<close> and for a literal such as \<open>1e400\<close>) or a NaN.
\<close>

datatype pyfloat = Finite real | PosInf | NegInf | NaN

text \<open>
  A value that \<open>json.load\<close> can put into the dictionary. Of a nested list or
  dictionary only the kind matters, since \<open>int\<close> and \<open>float\<close> raise \<open>TypeError\<close> on both.
\<close>

datatype jval = JNull | JBool bool | JInt int | JFloat pyfloat | JStr string | JList | JDict

text \<open>
  What is found at \<open>save.json\<close>: no file; a file that \<open>open\<close> or \<open>json.load\<close> fails on; a
  document that is not an object; or an object, as a map from its keys.
\<close>

datatype save_file =
  No_file | Unreadable | Not_an_object | Object "string \<rightharpoonup> jval"

text \<open>
  \<open>float(n)\<close> of an integer raises \<open>OverflowError\<close> when \<open>n\<close> rounds to a double beyond
  the largest one, \<open>2 ^ 1024 - 2 ^ 971\<close>: from \<open>2 ^ 1024 - 2 ^ 970\<close> on, in absolute value.
\<close>

definition float_overflows :: "int \<Rightarrow> bool" where
  "float_overflows n \<longleftrightarrow> \<bar>n\<bar> \<ge> 2 ^ 1024 - 2 ^ 970"

text \<open>
  The conversions \<open>int(x)\<close> and \<open>float(x)\<close>. How Python reads a number from a string is
  a parameter: the parser returns \<open>None\<close> where Python raises \<open>ValueError\<close>. \<open>int\<close> raises
  \<open>OverflowError\<close> on an infinity and \<open>ValueError\<close> on a NaN.
\<close>

definition py_int :: "(string \<Rightarrow> int option) \<Rightarrow> jval \<Rightarrow> error + int" where
  "py_int parse x =
     (case x of
        JNull \<Rightarrow> Inl TypeError
      | JBool b \<Rightarrow> Inr (if b then 1 else 0)
      | JInt n \<Rightarrow> Inr n
      | JFloat f \<Rightarrow>
          (case f of
             Finite r \<Rightarrow> Inr (int_of_float r)
           | PosInf \<Rightarrow> Inl OverflowError
           | NegInf \<Rightarrow> Inl OverflowError
           | NaN \<Rightarrow> Inl ValueError)
      | JStr s \<Rightarrow> (case parse s of None \<Rightarrow> Inl ValueError | Some n \<Rightarrow> Inr n)
      | JList \<Rightarrow> Inl TypeError
      | JDict \<Rightarrow> Inl TypeError)"

definition py_float :: "(string \<Rightarrow> pyfloat option) \<Rightarrow> jval \<Rightarrow> error + pyfloat" where
  "py_float parse x =
     (case x of
        JNull \<Rightarrow> Inl TypeError
      | JBool b \<Rightarrow> Inr (Finite (if b then 1 else 0))
      | JInt n \<Rightarrow>
          (if float_overflows n then Inl OverflowError else Inr (Finite (real_of_int n)))
      | JFloat f \<Rightarrow> Inr f
      | JStr s \<Rightarrow> (case parse s of None \<Rightarrow> Inl ValueError | Some f \<Rightarrow> Inr f)
      | JList \<Rightarrow> Inl TypeError
      | JDict \<Rightarrow> Inl TypeError)"

text \<open>\<open>data.get(key, default)\<close>\<close>

definition dict_get :: "(string \<rightharpoonup> jval) \<Rightarrow> string \<Rightarrow> jval \<Rightarrow> jval" where
  "dict_get data k dflt = (case data k of None \<Rightarrow> dflt | Some v \<Rightarrow> v)"

record loaded =
  loaded_speed :: int
  loaded_firerate :: int
  loaded_pierce :: int
  loaded_size :: int
  loaded_magnet :: int
  loaded_hp :: int

definition loaded_zero :: loaded where
  "loaded_zero =
     \<lparr>loaded_speed = 0, loaded_firerate = 0, loaded_pierce = 0, loaded_size = 0,
      loaded_magnet = 0, loaded_hp = 0\<rparr>"

text \<open>
  What a statement of the \<open>try\<close> body does: it raises, or it goes on with a new state.
  \<open>Not_modelled\<close> stands for the one case that the real-valued fields of \<^typ>\<open>player\<close>
  cannot hold: \<open>float\<close> has returned an infinity or a NaN, which the source stores in
  the player without raising.
\<close>

datatype 's outcome = Raises error | Continues 's | Not_modelled

text \<open>
  One assignment of the \<open>try\<close> body, \<open>target = int(data.get(key, default))\<close> or the same with
  \<open>float\<close>.
\<close>

definition assign_int ::
  "(string \<Rightarrow> int option) \<Rightarrow> (string \<rightharpoonup> jval) \<Rightarrow> string \<Rightarrow> int \<Rightarrow> (int \<Rightarrow> 's \<Rightarrow> 's) \<Rightarrow>
   's \<Rightarrow> 's outcome" where
  "assign_int parse data k dflt store s =
     (case py_int parse (dict_get data k (JInt dflt)) of
        Inl e \<Rightarrow> Raises e
      | Inr v \<Rightarrow> Continues (store v s))"

definition assign_float ::
  "(string \<Rightarrow> pyfloat option) \<Rightarrow> (string \<rightharpoonup> jval) \<Rightarrow> string \<Rightarrow> real \<Rightarrow>
   (real \<Rightarrow> 's \<Rightarrow> 's) \<Rightarrow> 's \<Rightarrow> 's outcome" where
  "assign_float parse data k dflt store s =
     (case py_float parse (dict_get data k (JFloat (Finite dflt))) of
        Inl e \<Rightarrow> Raises e
      | Inr f \<Rightarrow> (case f of Finite v \<Rightarrow> Continues (store v s) | _ \<Rightarrow> Not_modelled))"

text \<open>
  Statements run in order until one raises: the result is the state reached and the
  exception, if any. The statements before the raising one keep their effect. The
  result is \<open>None\<close> when a statement is \<open>Not_modelled\<close>.
\<close>

fun run_statements :: "('s \<Rightarrow> 's outcome) list \<Rightarrow> 's \<Rightarrow> ('s \<times> error option) option" where
  "run_statements [] s = Some (s, None)"
| "run_statements (f # fs) s =
     (case f s of
        Raises e \<Rightarrow> Some (s, Some e)
      | Continues s' \<Rightarrow> run_statements fs s'
      | Not_modelled \<Rightarrow> None)"

text \<open>The statements of the \<open>try\<close> body after \<open>json.load\<close>, on the player and the counters.\<close>

definition try_body ::
  "(string \<Rightarrow> int option) \<Rightarrow> (string \<Rightarrow> pyfloat option) \<Rightarrow> (string \<rightharpoonup> jval) \<Rightarrow>
   (player \<times> loaded \<Rightarrow> (player \<times> loaded) outcome) list" where
  "try_body parse_int parse_float data =
     [assign_int parse_int data ''coins'' 0 (\<lambda>v (p, l). (p\<lparr>coins := v\<rparr>, l)),
      assign_float parse_float data ''speed_multiplier'' 1
        (\<lambda>v (p, l). (p\<lparr>speed_multiplier := v\<rparr>, l)),
      assign_float parse_float data ''fire_rate_multiplier'' 1
        (\<lambda>v (p, l). (p\<lparr>fire_rate_multiplier := v\<rparr>, l)),
      assign_int parse_int data ''bullet_size_level'' 0
        (\<lambda>v (p, l). (p\<lparr>bullet_size_level := v\<rparr>, l)),
      assign_int parse_int data ''bullet_pierce_level'' 0
        (\<lambda>v (p, l). (p\<lparr>bullet_pierce_level := v\<rparr>, l)),
      assign_float parse_float data ''magnet_radius'' 60
        (\<lambda>v (p, l). (p\<lparr>magnet_radius := v\<rparr>, l)),
      assign_int parse_int data ''max_health_bonus'' 0
        (\<lambda>v (p, l). (p\<lparr>max_health_bonus := v\<rparr>, l)),
      assign_int parse_int data ''armor'' 0 (\<lambda>v (p, l). (p\<lparr>armor := v\<rparr>, l)),
      assign_int parse_int data ''bullet_damage_level'' 0
        (\<lambda>v (p, l). (p\<lparr>bullet_damage_level := v\<rparr>, l)),
      assign_int parse_int data ''coin_gain_level'' 0
        (\<lambda>v (p, l). (p\<lparr>coin_gain_level := v\<rparr>, l)),
      (\<lambda>(p, l). Continues (p\<lparr>health := max_health p\<rparr>, l)),
      assign_int parse_int data ''speed_levels'' 0 (\<lambda>v (p, l). (p, l\<lparr>loaded_speed := v\<rparr>)),
      assign_int parse_int data ''firerate_levels'' 0
        (\<lambda>v (p, l). (p, l\<lparr>loaded_firerate := v\<rparr>)),
      assign_int parse_int data ''pierce_levels'' 0 (\<lambda>v (p, l). (p, l\<lparr>loaded_pierce := v\<rparr>)),
      assign_int parse_int data ''size_levels'' 0 (\<lambda>v (p, l). (p, l\<lparr>loaded_size := v\<rparr>)),
      assign_int parse_int data ''magnet_levels'' 0 (\<lambda>v (p, l). (p, l\<lparr>loaded_magnet := v\<rparr>)),
      assign_int parse_int data ''hp_levels'' 0 (\<lambda>v (p, l). (p, l\<lparr>loaded_hp := v\<rparr>))]"

text \<open>
  The block \<open># try load save\<close>, applied to the player that \<open>run\<close> has just constructed.
  The handler \<open>except Exception\<close> sets the six counters to zero and leaves the player
  as the statements before the exception have made it. On a document that is not an
  object, the first \<open>data.get\<close> raises \<open>AttributeError\<close>. The result is \<open>None\<close> only when
  the file puts an infinity or a NaN into a float field of the player.
\<close>

definition load_save ::
  "(string \<Rightarrow> int option) \<Rightarrow> (string \<Rightarrow> pyfloat option) \<Rightarrow> save_file \<Rightarrow> player \<Rightarrow>
   (player \<times> loaded) option" where
  "load_save parse_int parse_float file p =
     (case file of
        No_file \<Rightarrow> Some (p, loaded_zero)
      | Unreadable \<Rightarrow> Some (p, loaded_zero)
      | Not_an_object \<Rightarrow> Some (p, loaded_zero)
      | Object data \<Rightarrow>
          (case run_statements (try_body parse_int parse_float data) (p, loaded_zero) of
             None \<Rightarrow> None
           | Some ((p', l), None) \<Rightarrow> Some (p', l)
           | Some ((p', l), Some e) \<Rightarrow> Some (p', loaded_zero)))"

section \<open>Notions of the statements\<close>

text \<open>
  A hit is dodged when \<open>dodge_level\<close> is positive and the draw of \<open>take_hit\<close> falls under
  the dodge chance.
\<close>

definition dodges :: "player \<Rightarrow> rng \<Rightarrow> bool" where
  "dodges p g \<longleftrightarrow>
     dodge_level p > 0 \<and> fst (random_random g) < min 0.5 (0.05 * real_of_int (dodge_level p))"

text \<open>
  The circle of a bullet. An enemy is struck by a list of bullets when one of them
  overlaps it; \<open>survive\<close> is what one pass leaves of the enemy then: nothing, the enemy
  with one point of health less, or the enemy as it was.
\<close>

definition footprint :: "bullet \<Rightarrow> vec \<times> real" where
  "footprint b = (position b, radius b)"

definition struck :: "bullet list \<Rightarrow> enemy \<Rightarrow> bool" where
  "struck bs e \<longleftrightarrow>
     (\<exists>b \<in> set bs. circle_intersects_circle (position e) (radius e) (position b) (radius b))"

definition survive :: "bullet list \<Rightarrow> enemy \<Rightarrow> enemy list" where
  "survive bs e =
     (if struck bs e
      then (if health e - 1 \<le> 0 then [] else [e\<lparr>health := health e - 1\<rparr>])
      else [e])"

text \<open>A player, and a match state, with other values of the two counters.\<close>

definition with_levels :: "int \<Rightarrow> int \<Rightarrow> player \<Rightarrow> player" where
  "with_levels c k p = p\<lparr>crit_level := c, coin_gain_level := k\<rparr>"

definition world_with_levels :: "int \<Rightarrow> int \<Rightarrow> world \<Rightarrow> world" where
  "world_with_levels c k w = w\<lparr>player := with_levels c k (player w)\<rparr>"

text \<open>Which purchase a key asks for on a page: the cost read and the effect applied.\<close>

definition key_purchase ::
  "key \<Rightarrow> int \<Rightarrow> costs \<Rightarrow> (int \<times> (player \<times> shop \<Rightarrow> player \<times> shop)) option" where
  "key_purchase k page c =
     (if k = K_1 \<or> k = K_KP1 then Some (speed_cost c, upgrade_speed)
      else if k = K_2 \<or> k = K_KP2 then Some (firerate_cost c, upgrade_firerate)
      else if k = K_3 \<or> k = K_KP3 then Some (pierce_cost c, upgrade_pierce)
      else if k = K_4 \<or> k = K_KP4 then Some (size_cost c, upgrade_size)
      else if k = K_5 \<or> k = K_KP5 then Some (magnet_cost c, upgrade_magnet)
      else if k = K_6 \<or> k = K_KP6 then Some (hp_cost c, upgrade_hp)
      else if (k = K_7 \<or> k = K_KP7) \<and> page = 1 then Some (dmg_cost c, upgrade_dmg)
      else if (k = K_8 \<or> k = K_KP8) \<and> page = 1 then Some (coin_cost c, upgrade_coin)
      else None)"

definition upgrades :: "(player \<times> shop \<Rightarrow> player \<times> shop) list" where
  "upgrades =
     [upgrade_speed, upgrade_firerate, upgrade_pierce, upgrade_size, upgrade_magnet,
      upgrade_hp, upgrade_dmg, upgrade_coin]"

section \<open>Scenarios\<close>

text \<open>Concrete states on which the statements below are evaluated.\<close>

definition no_overlay :: overlays where
  "no_overlay =
     \<lparr>paused = False, shop_open = False, item_shop_open = False, console_open = False,
      admin_panel_open = False\<rparr>"

definition arena :: world where
  "arena =
     \<lparr>player = Player (480, 270), bullets = [], enemies = [], coin_list = [],
      explosions = [], spawner = EnemySpawner, score = 0, rng = (\<lambda>n. 1 / 2)\<rparr>"

definition pellet :: "int \<Rightarrow> bullet" where
  "pellet n =
     \<lparr>position = (100, 100), radius = 4, velocity = (600, 0), pierce_remaining = n,
      lifetime = 1.2, damage = 1\<rparr>"

definition grunt :: enemy where
  "grunt =
     \<lparr>position = (100, 100), radius = 14, health = 1, speed = 100, enemy_max_health = 1,
      is_boss = False, shooter = None\<rparr>"

definition boss :: "int \<Rightarrow> enemy" where
  "boss hp =
     \<lparr>position = (100, 100), radius = 34, health = hp, speed = 120,
      enemy_max_health = 280, is_boss = True, shooter = None\<rparr>"

definition shopper :: "int \<Rightarrow> player" where
  "shopper n = (Player (480, 270))\<lparr>coins := n\<rparr>"

definition fresh_shop :: shop where
  "fresh_shop =
     \<lparr>speed_levels = 0, firerate_levels = 0, pierce_levels = 0, size_levels = 0,
      magnet_levels = 0, hp_levels = 0, shop_page = 0\<rparr>"

definition page_two :: shop where
  "page_two = fresh_shop\<lparr>shop_page := 1\<rparr>"

definition broken_save :: save_file where
  "broken_save = Object [''max_health_bonus'' \<mapsto> JInt 2, ''armor'' \<mapsto> JNull]"

definition marksman :: player where
  "marksman =
     (Player (0, 0))\<lparr>bullet_speed_level := 5, bullet_size_level := 2,
       bullet_pierce_level := 1, bullet_damage_level := 3, fire_rate_multiplier := 2\<rparr>"

definition shot :: bullet where
  "shot =
     \<lparr>position = (0, 0), radius = 6.8, velocity = (504, 672), pierce_remaining = 1,
      lifetime = 1.2, damage = 4\<rparr>"

section \<open>Properties\<close>

lemmas config_defs =
  PLAYER_RADIUS_def ENEMY_RADIUS_def PLAYER_MAX_HEALTH_def BULLET_SPEED_def BULLET_RADIUS_def
  BULLET_COOLDOWN_SEC_def BULLET_LIFETIME_SEC_def ENEMY_SPAWN_EVERY_SEC_def
  ENEMY_SPAWN_ACCEL_EVERY_SEC_def ENEMY_SPAWN_ACCEL_FACTOR_def INVULN_ON_HIT_SEC_def
  LEVEL_KILLS_TO_BOSS_BASE_def LEVEL_KILLS_TO_BOSS_INC_def NORMAL_DROP_CHANCE_def

subsection \<open>Spawner\<close>

lemma EnemySpawner_update_interval:
  assumes "0.25 \<le> current_interval s"
  shows "0.25 \<le> current_interval (EnemySpawner_update dt s)"
    and "current_interval (EnemySpawner_update dt s) \<le> current_interval s"
  using assms
  by (simp_all add: EnemySpawner_update_def Let_def config_defs max_def)

lemma on_boss_killed_interval:
  assumes "0.25 \<le> current_interval s"
  shows "0.25 \<le> current_interval (on_boss_killed s)"
    and "current_interval (on_boss_killed s) \<le> current_interval s"
  using assms
  by (simp_all add: on_boss_killed_def Let_def max_def)

lemma spawner_step_interval:
  assumes "0.25 \<le> current_interval s"
  shows "0.25 \<le> current_interval (spawner_step s ev)"
    and "current_interval (spawner_step s ev) \<le> current_interval s"
  using EnemySpawner_update_interval [OF assms] on_boss_killed_interval [OF assms]
  by (cases ev; simp)+

lemma spawner_trace_hd: "hd (spawner_trace s evs) = current_interval s"
  by (cases evs) simp_all

lemma spawner_trace_ne: "spawner_trace s evs \<noteq> []"
  by (cases evs) simp_all

lemma non_increasing_Cons:
  "xs \<noteq> [] \<Longrightarrow> non_increasing (x # xs) = (hd xs \<le> x \<and> non_increasing xs)"
  by (cases xs) simp_all

lemma spawner_trace_invariant:
  "0.25 \<le> current_interval s \<Longrightarrow>
     non_increasing (spawner_trace s evs) \<and> (\<forall>x \<in> set (spawner_trace s evs). 0.25 \<le> x)"
proof (induction evs arbitrary: s)
  case Nil
  then show ?case by simp
next
  case (Cons ev evs)
  have step: "0.25 \<le> current_interval (spawner_step s ev)"
    "current_interval (spawner_step s ev) \<le> current_interval s"
    using spawner_step_interval [OF Cons.prems] by simp_all
  from Cons.IH [OF step(1)] step(2) Cons.prems show ?case
    by (simp add: non_increasing_Cons spawner_trace_ne spawner_trace_hd)
qed

text \<open>
  Claim C6. \<open>should_spawn_boss\<close> is true exactly when no boss is active and the kills
  of the level have reached \<open>30 + (level - 1) * 10\<close>. Right after \<open>on_boss_killed\<close> it
  is false, whatever the counter was before, for every spawner whose level is at least
  1; the level is then one higher, and with \<open>k\<close> kills in the new level it is true
  exactly when \<open>k\<close> has reached the threshold of the new level.
\<close>

theorem should_spawn_boss_gating:
  "(should_spawn_boss s \<longleftrightarrow>
      \<not> boss_active s \<and> kills_this_level s \<ge> 30 + (level s - 1) * 10) \<and>
   (1 \<le> level s \<longrightarrow> \<not> should_spawn_boss (on_boss_killed s)) \<and>
   level (on_boss_killed s) = level s + 1 \<and>
   (should_spawn_boss ((on_boss_killed s)\<lparr>kills_this_level := k\<rparr>) \<longleftrightarrow>
      k \<ge> 30 + (level (on_boss_killed s) - 1) * 10)"
  by (simp add: should_spawn_boss_def on_boss_killed_def Let_def config_defs)

theorem should_spawn_boss_gating_witness:
  "1 \<le> level (EnemySpawner\<lparr>kills_this_level := 45, boss_active := True\<rparr>) \<and>
   30 + (level (EnemySpawner\<lparr>kills_this_level := 45, boss_active := True\<rparr>) - 1) * 10
     \<le> kills_this_level (EnemySpawner\<lparr>kills_this_level := 45, boss_active := True\<rparr>) \<and>
   \<not> should_spawn_boss
       (on_boss_killed (EnemySpawner\<lparr>kills_this_level := 45, boss_active := True\<rparr>)) \<and>
   should_spawn_boss
     ((on_boss_killed (EnemySpawner\<lparr>kills_this_level := 45, boss_active := True\<rparr>))
        \<lparr>kills_this_level := 40\<rparr>)"
  using should_spawn_boss_gating
    [of "EnemySpawner\<lparr>kills_this_level := 45, boss_active := True\<rparr>" 40]
  by (simp add: EnemySpawner_def)

text \<open>
  Claim C7. From the initial spawner, over every sequence of updates (with any time
  steps) and boss kills, the spawn interval after each event is at most the interval
  before it, and it is never below 0.25.
\<close>

theorem spawn_interval_monotone:
  "non_increasing (spawner_trace EnemySpawner evs) \<and>
   (\<forall>x \<in> set (spawner_trace EnemySpawner evs). 0.25 \<le> x)"
  by (rule spawner_trace_invariant) (simp add: EnemySpawner_def config_defs)

theorem spawn_interval_monotone_witness:
  "spawner_trace EnemySpawner [Update 20, Boss_killed, Update 1.2, Update 20] =
     [1.1, 1.012, 0.9614, 0.9614, 0.884488] \<and>
   non_increasing (spawner_trace EnemySpawner [Update 20, Boss_killed, Update 1.2, Update 20]) \<and>
   list_all (\<lambda>x. 0.25 \<le> x)
     (spawner_trace EnemySpawner [Update 20, Boss_killed, Update 1.2, Update 20])"
  using spawn_interval_monotone [of "[Update 20, Boss_killed, Update 1.2, Update 20]"]
  by (simp add: EnemySpawner_def EnemySpawner_update_def on_boss_killed_def Let_def config_defs)

subsection \<open>Player\<close>

lemma take_hit_invulnerable: "invuln_timer p > 0 \<Longrightarrow> take_hit p g = (p, g)"
  by (simp add: take_hit_def)

lemma take_hit_lands:
  assumes "\<not> invuln_timer p > 0" "\<not> dodges p g"
  shows "fst (take_hit p g) =
           (if armor p > 0 then p\<lparr>armor := armor p - 1\<rparr> else p\<lparr>health := health p - 1\<rparr>)
             \<lparr>invuln_timer := INVULN_ON_HIT_SEC\<rparr>"
  using assms
  by (auto simp add: take_hit_def dodges_def Let_def split_beta)

lemma dodges_update [simp]:
  "dodges (p\<lparr>invuln_timer := t\<rparr>) g = dodges p g"
  "dodges (p\<lparr>armor := a\<rparr>) g = dodges p g"
  "dodges (p\<lparr>health := h\<rparr>) g = dodges p g"
  by (simp_all add: dodges_def)

text \<open>
  Claim C4. \<open>take_hit\<close> changes nothing, and draws nothing, while the invulnerability
  timer is positive. A hit that is neither blocked by the timer nor dodged takes one
  armor if there is armor and one health otherwise, and sets the timer to
  \<open>INVULN_ON_HIT_SEC\<close>. From armor 2 and health 5, three such hits, the timer having run
  out before each, give armor 1 and health 5, then armor 0 and health 5, then armor 0
  and health 4.
\<close>

theorem take_hit_armor_before_health:
  "(invuln_timer p > 0 \<longrightarrow> take_hit p g = (p, g)) \<and>
   (\<not> invuln_timer p > 0 \<and> \<not> dodges p g \<longrightarrow>
      fst (take_hit p g) =
        (if armor p > 0 then p\<lparr>armor := armor p - 1\<rparr> else p\<lparr>health := health p - 1\<rparr>)
          \<lparr>invuln_timer := INVULN_ON_HIT_SEC\<rparr>) \<and>
   (armor p = 2 \<and> health p = 5 \<and> invuln_timer p \<le> 0 \<and> t1 \<le> 0 \<and> t2 \<le> 0 \<and>
    \<not> dodges p g1 \<and> \<not> dodges p g2 \<and> \<not> dodges p g3 \<longrightarrow>
      (let p1 = fst (take_hit p g1);
           p2 = fst (take_hit (p1\<lparr>invuln_timer := t1\<rparr>) g2);
           p3 = fst (take_hit (p2\<lparr>invuln_timer := t2\<rparr>) g3)
       in armor p1 = 1 \<and> health p1 = 5 \<and> armor p2 = 0 \<and> health p2 = 5 \<and>
          armor p3 = 0 \<and> health p3 = 4))"
proof (intro conjI impI)
  assume "invuln_timer p > 0"
  then show "take_hit p g = (p, g)" by (rule take_hit_invulnerable)
next
  assume "\<not> invuln_timer p > 0 \<and> \<not> dodges p g"
  then show "fst (take_hit p g) =
        (if armor p > 0 then p\<lparr>armor := armor p - 1\<rparr> else p\<lparr>health := health p - 1\<rparr>)
          \<lparr>invuln_timer := INVULN_ON_HIT_SEC\<rparr>"
    by (simp add: take_hit_lands)
next
  assume a: "armor p = 2 \<and> health p = 5 \<and> invuln_timer p \<le> 0 \<and> t1 \<le> 0 \<and> t2 \<le> 0 \<and>
    \<not> dodges p g1 \<and> \<not> dodges p g2 \<and> \<not> dodges p g3"
  define p1 where "p1 = fst (take_hit p g1)"
  define p2 where "p2 = fst (take_hit (p1\<lparr>invuln_timer := t1\<rparr>) g2)"
  define p3 where "p3 = fst (take_hit (p2\<lparr>invuln_timer := t2\<rparr>) g3)"
  have e1: "p1 = p\<lparr>armor := 1, invuln_timer := INVULN_ON_HIT_SEC\<rparr>"
    unfolding p1_def using a by (simp add: take_hit_lands)
  have e2: "p2 = p\<lparr>armor := 0, invuln_timer := INVULN_ON_HIT_SEC\<rparr>"
    unfolding p2_def e1 using a by (simp add: take_hit_lands)
  have e3: "p3 = p\<lparr>armor := 0, health := 4, invuln_timer := INVULN_ON_HIT_SEC\<rparr>"
    unfolding p3_def e2 using a by (simp add: take_hit_lands)
  show "let p1 = fst (take_hit p g1);
           p2 = fst (take_hit (p1\<lparr>invuln_timer := t1\<rparr>) g2);
           p3 = fst (take_hit (p2\<lparr>invuln_timer := t2\<rparr>) g3)
       in armor p1 = 1 \<and> health p1 = 5 \<and> armor p2 = 0 \<and> health p2 = 5 \<and>
          armor p3 = 0 \<and> health p3 = 4"
    unfolding Let_def p1_def [symmetric] p2_def [symmetric] p3_def [symmetric]
    using a by (simp add: e1 e2 e3)
qed

theorem take_hit_armor_before_health_witness:
  "armor ((Player (480, 270))\<lparr>armor := 2\<rparr>) = 2 \<and>
   health ((Player (480, 270))\<lparr>armor := 2\<rparr>) = 5 \<and>
   invuln_timer ((Player (480, 270))\<lparr>armor := 2\<rparr>) \<le> 0 \<and>
   \<not> dodges ((Player (480, 270))\<lparr>armor := 2\<rparr>) (\<lambda>n. 0) \<and>
   fst (take_hit ((Player (480, 270))\<lparr>armor := 2\<rparr>) (\<lambda>n. 0)) =
     (Player (480, 270))\<lparr>armor := 1, invuln_timer := 0.6\<rparr> \<and>
   take_hit ((Player (480, 270))\<lparr>armor := 1, invuln_timer := 0.6\<rparr>) (\<lambda>n. 0) =
     ((Player (480, 270))\<lparr>armor := 1, invuln_timer := 0.6\<rparr>, \<lambda>n. 0) \<and>
   (let p1 = fst (take_hit ((Player (480, 270))\<lparr>armor := 2\<rparr>) (\<lambda>n. 0));
        p2 = fst (take_hit (p1\<lparr>invuln_timer := 0\<rparr>) (\<lambda>n. 0));
        p3 = fst (take_hit (p2\<lparr>invuln_timer := - 1\<rparr>) (\<lambda>n. 0))
    in armor p1 = 1 \<and> health p1 = 5 \<and> armor p2 = 0 \<and> health p2 = 5 \<and>
       armor p3 = 0 \<and> health p3 = 4)"
  using take_hit_armor_before_health
    [of "(Player (480, 270))\<lparr>armor := 2\<rparr>" "\<lambda>n. 0" 0 "- 1" "\<lambda>n. 0" "\<lambda>n. 0" "\<lambda>n. 0"]
    take_hit_armor_before_health
    [of "(Player (480, 270))\<lparr>armor := 1, invuln_timer := 0.6\<rparr>" "\<lambda>n. 0"]
  by (simp add: Player_def dodges_def take_hit_def Let_def config_defs)

lemma vlength_vscale: "vlength (vscale v k) = \<bar>k\<bar> * vlength v"
proof -
  have "length_squared (vscale v k) = k\<^sup>2 * length_squared v"
    by (simp add: length_squared_def vscale_def power2_eq_square algebra_simps)
  then show ?thesis
    by (simp add: vlength_def real_sqrt_mult)
qed

lemma length_squared_nonneg: "0 \<le> length_squared v"
  by (simp add: length_squared_def)

lemma vlength_normalize:
  assumes "normalize v = Inr u"
  shows "vlength u = 1"
proof -
  have nz: "vlength v \<noteq> 0" and u: "u = (fst v / vlength v, snd v / vlength v)"
    using assms by (auto simp add: normalize_def split: if_splits)
  have sq: "(vlength v)\<^sup>2 = length_squared v"
    by (simp add: vlength_def length_squared_nonneg)
  have "length_squared u = length_squared v / (vlength v)\<^sup>2"
    by (simp add: u length_squared_def power2_eq_square add_divide_distrib)
  also have "\<dots> = 1" using nz by (simp flip: sq)
  finally show ?thesis by (simp add: vlength_def)
qed

lemma normalize_defined:
  "length_squared v > 0 \<Longrightarrow> normalize v = Inr (fst v / vlength v, snd v / vlength v)"
  by (simp add: normalize_def vlength_def)

lemma try_shoot_None_iff:
  "(\<exists>p'. try_shoot p aim = Inr (None, p')) \<longleftrightarrow>
     shoot_cooldown p > 0 \<or> length_squared (vsub aim (position p)) \<le> 1 / 10 ^ 6"
  by (auto simp add: try_shoot_def Let_def split: sum.splits)

lemma try_shoot_Some:
  assumes "try_shoot p aim = Inr (Some b, p')"
  shows "normalize (vsub aim (position p)) =
           Inr (fst (vsub aim (position p)) / vlength (vsub aim (position p)),
                snd (vsub aim (position p)) / vlength (vsub aim (position p)))"
    and "velocity b =
           vscale (vscale (fst (vsub aim (position p)) / vlength (vsub aim (position p)),
                           snd (vsub aim (position p)) / vlength (vsub aim (position p)))
                     BULLET_SPEED)
             (bullet_speed_multiplier p * (1 + 0.08 * real_of_int (bullet_speed_level p)))"
    and "radius b = BULLET_RADIUS * (1 + 0.35 * real_of_int (bullet_size_level p))"
    and "pierce_remaining b = bullet_pierce_level p"
    and "damage b = 1 + bullet_damage_level p"
    and "position b = position p"
    and "lifetime b = BULLET_LIFETIME_SEC"
    and "p' = p\<lparr>shoot_cooldown := max 0.02 (BULLET_COOLDOWN_SEC / fire_rate_multiplier p)\<rparr>"
  using assms
  by (auto simp add: try_shoot_def Let_def normalize_def split: sum.splits if_splits)


text \<open>
  Claim C8, as the spec states it, fails: \<open>try_shoot\<close> also returns no bullet for an aim
  point that is near the player without coinciding with it. Here the cooldown is zero
  and the aim point is 0.0005 to the right of the player.
\<close>

theorem try_shoot_near_aim_counterexample:
  "try_shoot (Player (0, 0)) (0.0005, 0) = Inr (None, Player (0, 0)) \<and>
   \<not> shoot_cooldown (Player (0, 0)) > 0 \<and>
   (0.0005, 0) \<noteq> position (Player (0, 0))"
  by (simp add: try_shoot_def Player_def vsub_def length_squared_def)

text \<open>
  Claim C8, amended. \<open>try_shoot\<close> returns no bullet exactly when the cooldown is positive
  or the squared distance from the player to the aim point is at most \<open>1e-6\<close>. A bullet
  it returns starts at the player, flies along the unit vector towards the aim point
  at the speed \<open>BULLET_SPEED * bullet_speed_multiplier * (1 + 0.08 * bullet_speed_level)\<close>
  (in absolute value), has radius \<open>BULLET_RADIUS * (1 + 0.35 * bullet_size_level)\<close>, pierce
  \<open>bullet_pierce_level\<close> and damage \<open>1 + bullet_damage_level\<close>, and the player's cooldown
  becomes \<open>max(0.02, BULLET_COOLDOWN_SEC / fire_rate_multiplier)\<close>. It does return a
  bullet whenever neither condition holds and \<open>fire_rate_multiplier\<close> is not zero.
\<close>

theorem try_shoot_bullet:
  "((\<exists>p'. try_shoot p aim = Inr (None, p')) \<longleftrightarrow>
      shoot_cooldown p > 0 \<or> length_squared (vsub aim (position p)) \<le> 1 / 10 ^ 6) \<and>
   (try_shoot p aim = Inr (Some b, p') \<longrightarrow>
      velocity b =
        vscale (vscale (fst (vsub aim (position p)) / vlength (vsub aim (position p)),
                        snd (vsub aim (position p)) / vlength (vsub aim (position p)))
                  BULLET_SPEED)
          (bullet_speed_multiplier p * (1 + 0.08 * real_of_int (bullet_speed_level p))) \<and>
      vlength (velocity b) =
        \<bar>BULLET_SPEED * bullet_speed_multiplier p *
         (1 + 0.08 * real_of_int (bullet_speed_level p))\<bar> \<and>
      radius b = BULLET_RADIUS * (1 + 0.35 * real_of_int (bullet_size_level p)) \<and>
      pierce_remaining b = bullet_pierce_level p \<and>
      damage b = 1 + bullet_damage_level p \<and>
      position b = position p \<and>
      p' = p\<lparr>shoot_cooldown := max 0.02 (BULLET_COOLDOWN_SEC / fire_rate_multiplier p)\<rparr>) \<and>
   (\<not> shoot_cooldown p > 0 \<and> length_squared (vsub aim (position p)) > 1 / 10 ^ 6 \<and>
    fire_rate_multiplier p \<noteq> 0 \<longrightarrow>
      (\<exists>b p'. try_shoot p aim = Inr (Some b, p')))"
proof (intro conjI impI)
  show "(\<exists>p'. try_shoot p aim = Inr (None, p')) \<longleftrightarrow>
      shoot_cooldown p > 0 \<or> length_squared (vsub aim (position p)) \<le> 1 / 10 ^ 6"
    by (rule try_shoot_None_iff)
next
  assume ok: "try_shoot p aim = Inr (Some b, p')"
  note facts = try_shoot_Some [OF ok]
  show "velocity b =
        vscale (vscale (fst (vsub aim (position p)) / vlength (vsub aim (position p)),
                        snd (vsub aim (position p)) / vlength (vsub aim (position p)))
                  BULLET_SPEED)
          (bullet_speed_multiplier p * (1 + 0.08 * real_of_int (bullet_speed_level p)))"
    by (rule facts(2))
  show "vlength (velocity b) =
        \<bar>BULLET_SPEED * bullet_speed_multiplier p *
         (1 + 0.08 * real_of_int (bullet_speed_level p))\<bar>"
    by (simp add: facts(2) vlength_vscale vlength_normalize [OF facts(1)] abs_mult
          mult.commute mult.left_commute)
  show "radius b = BULLET_RADIUS * (1 + 0.35 * real_of_int (bullet_size_level p))"
    by (rule facts(3))
  show "pierce_remaining b = bullet_pierce_level p" by (rule facts(4))
  show "damage b = 1 + bullet_damage_level p" by (rule facts(5))
  show "position b = position p" by (rule facts(6))
  show "p' = p\<lparr>shoot_cooldown := max 0.02 (BULLET_COOLDOWN_SEC / fire_rate_multiplier p)\<rparr>"
    by (rule facts(8))
next
  assume "\<not> shoot_cooldown p > 0 \<and> length_squared (vsub aim (position p)) > 1 / 10 ^ 6 \<and>
    fire_rate_multiplier p \<noteq> 0"
  then show "\<exists>b p'. try_shoot p aim = Inr (Some b, p')"
    by (simp add: try_shoot_def Let_def normalize_defined)
qed

theorem try_shoot_bullet_witness:
  "try_shoot marksman (3, 4) = Inr (Some shot, marksman\<lparr>shoot_cooldown := 0.06\<rparr>) \<and>
   vlength (velocity shot) = 840"
proof -
  have len: "vlength (3, 4) = 5"
  proof -
    have "length_squared (3, 4) = 5\<^sup>2" by (simp add: length_squared_def)
    then show ?thesis by (simp add: vlength_def del: real_sqrt_eq_iff)
  qed
  have run: "try_shoot marksman (3, 4) = Inr (Some shot, marksman\<lparr>shoot_cooldown := 0.06\<rparr>)"
    by (simp add: try_shoot_def marksman_def shot_def Player_def vsub_def normalize_def len
          Let_def vscale_def config_defs length_squared_def)
  have "try_shoot marksman (3, 4) = Inr (Some shot, marksman\<lparr>shoot_cooldown := 0.06\<rparr>) \<longrightarrow>
        vlength (velocity shot) =
          \<bar>BULLET_SPEED * bullet_speed_multiplier marksman *
           (1 + 0.08 * real_of_int (bullet_speed_level marksman))\<bar>"
    using try_shoot_bullet [of marksman "(3, 4)" shot "marksman\<lparr>shoot_cooldown := 0.06\<rparr>"]
    by blast
  with run have "vlength (velocity shot) =
          \<bar>BULLET_SPEED * bullet_speed_multiplier marksman *
           (1 + 0.08 * real_of_int (bullet_speed_level marksman))\<bar>"
    by blast
  then have "vlength (velocity shot) = 840"
    by (simp add: marksman_def Player_def BULLET_SPEED_def)
  with run show ?thesis by simp
qed

subsection \<open>The upgrade shop\<close>

lemmas upgrade_defs =
  upgrade_speed_def upgrade_firerate_def upgrade_pierce_def upgrade_size_def
  upgrade_magnet_def upgrade_hp_def upgrade_dmg_def upgrade_coin_def

lemma upgrades_keep_coins:
  "effect \<in> set upgrades \<Longrightarrow> coins (fst (effect ps)) = coins (fst ps)"
  by (auto simp add: upgrades_def upgrade_defs split_beta Let_def)

lemma key_purchase_upgrade:
  "key_purchase k page c = Some (cost, effect) \<Longrightarrow> effect \<in> set upgrades"
  by (auto simp add: key_purchase_def upgrades_def split: if_splits)

lemma buy_rejected: "cost = 0 \<or> coins p < cost \<Longrightarrow> buy cost effect (p, sh) = (p, sh)"
  by (auto simp add: buy_def)

lemma buy_accepted:
  "0 < cost \<Longrightarrow> cost \<le> coins p \<Longrightarrow>
     buy cost effect (p, sh) = effect (p\<lparr>coins := coins p - cost\<rparr>, sh)"
  by (simp add: buy_def)

lemma buy_coins:
  "effect \<in> set upgrades \<Longrightarrow>
     coins (fst (buy cost effect (p, sh))) =
       (if 0 < cost \<and> cost \<le> coins p then coins p - cost else coins p)"
  by (simp add: buy_def upgrades_keep_coins)

lemma shop_keydown_purchase:
  assumes "compute_costs p sh = Inr c"
  shows "shop_keydown k (p, sh) =
           Inr (case key_purchase k (shop_page sh) c of
                  Some (cost, effect) \<Rightarrow> buy cost effect (p, sh)
                | None \<Rightarrow>
                    (p, if k = K_RIGHT then sh\<lparr>shop_page := 1\<rparr>
                        else if k = K_LEFT then sh\<lparr>shop_page := 0\<rparr> else sh))"
proof -
  have page: "\<And>cost effect. effect \<in> set upgrades \<Longrightarrow>
      shop_page (snd (buy cost effect (p, sh))) = shop_page sh"
    by (auto simp add: buy_def upgrades_def upgrade_defs Let_def)
  show ?thesis
    using assms
    by (cases k)
       (simp_all add: shop_keydown_def bind_error_def key_purchase_def Let_def page
          upgrades_def)
qed


lemma shop_keydown_coins:
  assumes "shop_keydown k (p, sh) = Inr (p', sh')"
  shows "coins p' \<le> coins p \<and> (0 \<le> coins p \<longrightarrow> 0 \<le> coins p')"
proof -
  from assms obtain c where c: "compute_costs p sh = Inr c"
    by (cases "compute_costs p sh") (simp_all add: shop_keydown_def bind_error_def)
  show ?thesis
  proof (cases "key_purchase k (shop_page sh) c")
    case None
    with assms shop_keydown_purchase [OF c, of k] show ?thesis by simp
  next
    case (Some ce)
    obtain cost effect where ce: "ce = (cost, effect)" by (cases ce)
    have "effect \<in> set upgrades"
      using Some ce key_purchase_upgrade by blast
    from buy_coins [OF this, of cost p sh] assms shop_keydown_purchase [OF c, of k] Some ce
    show ?thesis by (auto split: if_splits)
  qed
qed

lemma shop_keys_coins:
  "shop_keys ks (p, sh) = Inr (p', sh') \<Longrightarrow>
     coins p' \<le> coins p \<and> (0 \<le> coins p \<longrightarrow> 0 \<le> coins p')"
proof (induction ks arbitrary: p sh)
  case Nil
  then show ?case by simp
next
  case (Cons k ks)
  from Cons.prems obtain p1 sh1 where
    one: "shop_keydown k (p, sh) = Inr (p1, sh1)" and
    rest: "shop_keys ks (p1, sh1) = Inr (p', sh')"
    by (cases "shop_keydown k (p, sh)") (auto simp add: bind_error_def)
  from shop_keydown_coins [OF one] Cons.IH [OF rest] show ?case by auto
qed

lemma buy_coins_bounds:
  assumes "effect \<in> set upgrades"
  shows "coins (fst (buy cost effect ps)) \<le> coins (fst ps) \<and>
         (0 \<le> coins (fst ps) \<longrightarrow> 0 \<le> coins (fst (buy cost effect ps)))"
  using buy_coins [OF assms, of cost "fst ps" "snd ps"] by auto

lemma click_button_coins:
  "coins (fst (click_button c idx ps)) \<le> coins (fst ps) \<and>
   (0 \<le> coins (fst ps) \<longrightarrow> 0 \<le> coins (fst (click_button c idx ps)))"
  unfolding click_button_def
  by (auto simp add: upgrades_def intro!: buy_coins_bounds [THEN conjunct1]
        buy_coins_bounds [THEN conjunct2, rule_format])

lemma fold_click_coins:
  "coins (fst (fold (click_button c) hits ps)) \<le> coins (fst ps) \<and>
   (0 \<le> coins (fst ps) \<longrightarrow> 0 \<le> coins (fst (fold (click_button c) hits ps)))"
proof (induction hits arbitrary: ps)
  case Nil
  then show ?case by simp
next
  case (Cons idx hits)
  from Cons.IH [of "click_button c idx ps"] click_button_coins [of c idx ps]
  show ?case by auto
qed

lemma shop_click_coins:
  assumes "shop_click hits (p, sh) = Inr (p', sh')"
  shows "coins p' \<le> coins p \<and> (0 \<le> coins p \<longrightarrow> 0 \<le> coins p')"
proof -
  from assms obtain c where "fold (click_button c) hits (p, sh) = (p', sh')"
    by (cases "compute_costs p sh") (auto simp add: shop_click_def bind_error_def)
  with fold_click_coins [of c hits "(p, sh)"] show ?thesis by simp
qed

lemma random_randint_lower: "a \<le> b \<Longrightarrow> a \<le> fst (random_randint a b g)"
  by (simp add: random_randint_def split_beta Let_def)

lemma item_shop_buy_coins:
  "0 \<le> coins p \<Longrightarrow> 0 \<le> coins (fst (item_shop_buy kc p g))"
  using random_randint_lower [of 5 12 "snd (random_choice [''armor'', ''heal'', ''dmg'', ''coins''] g)"]
  by (simp add: item_shop_buy_def Let_def split_beta)

text \<open>
  The costs for counters that are not negative: the entry of the table at the level,
  and 0 from the end of the table on. So a cost is 0 exactly when the upgrade is maxed.
\<close>

lemma cost_entry_in_range:
  "0 \<le> lvl \<Longrightarrow> limit = int (length table) \<Longrightarrow>
     cost_entry table limit lvl = Inr (if lvl < limit then table ! nat lvl else 0)"
  by (simp add: cost_entry_def py_index_def)

lemma compute_costs_in_range:
  assumes "0 \<le> speed_levels sh" "0 \<le> firerate_levels sh" "0 \<le> pierce_levels sh"
    "0 \<le> size_levels sh" "0 \<le> magnet_levels sh" "0 \<le> hp_levels sh"
    "0 \<le> bullet_damage_level p" "0 \<le> coin_gain_level p"
  shows "compute_costs p sh =
     Inr \<lparr>speed_cost = (if speed_levels sh < 4 then [10, 20, 35, 55] ! nat (speed_levels sh) else 0),
          firerate_cost =
            (if firerate_levels sh < 5 then [12, 24, 40, 60, 85] ! nat (firerate_levels sh)
             else 0),
          pierce_cost = (if pierce_levels sh < 3 then [15, 30, 50] ! nat (pierce_levels sh) else 0),
          size_cost = (if size_levels sh < 3 then [12, 24, 40] ! nat (size_levels sh) else 0),
          magnet_cost =
            (if magnet_levels sh < 4 then [10, 20, 32, 48] ! nat (magnet_levels sh) else 0),
          hp_cost = (if hp_levels sh < 5 then [20, 40, 70, 110, 160] ! nat (hp_levels sh) else 0),
          dmg_cost =
            (if bullet_damage_level p < 5
             then [18, 36, 60, 90, 130] ! nat (bullet_damage_level p) else 0),
          coin_cost = (if coin_gain_level p < 3 then [14, 28, 50] ! nat (coin_gain_level p) else 0)\<rparr>"
  using assms
  by (simp add: compute_costs_def bind_error_def cost_entry_in_range)

text \<open>
  The key handler, upgrade by upgrade: with the costs \<open>c\<close> of \<open>compute_costs\<close>, each key
  either changes nothing or takes the cost of its upgrade and applies the effect of that
  upgrade. The keys of the keypad do what the digit keys do.
\<close>

lemma shop_keydown_effects:
  assumes "compute_costs p sh = Inr c"
  shows "shop_keydown K_1 (p, sh) =
           Inr (if 0 < speed_cost c \<and> speed_cost c \<le> coins p
                then (p\<lparr>coins := coins p - speed_cost c,
                        speed_multiplier := speed_multiplier p * 1.12\<rparr>,
                      sh\<lparr>speed_levels := speed_levels sh + 1\<rparr>)
                else (p, sh))"
    and "shop_keydown K_2 (p, sh) =
           Inr (if 0 < firerate_cost c \<and> firerate_cost c \<le> coins p
                then (p\<lparr>coins := coins p - firerate_cost c,
                        fire_rate_multiplier := fire_rate_multiplier p * 1.15\<rparr>,
                      sh\<lparr>firerate_levels := firerate_levels sh + 1\<rparr>)
                else (p, sh))"
    and "shop_keydown K_3 (p, sh) =
           Inr (if 0 < pierce_cost c \<and> pierce_cost c \<le> coins p
                then (p\<lparr>coins := coins p - pierce_cost c,
                        bullet_pierce_level := bullet_pierce_level p + 1\<rparr>,
                      sh\<lparr>pierce_levels := pierce_levels sh + 1\<rparr>)
                else (p, sh))"
    and "shop_keydown K_4 (p, sh) =
           Inr (if 0 < size_cost c \<and> size_cost c \<le> coins p
                then (p\<lparr>coins := coins p - size_cost c,
                        bullet_size_level := bullet_size_level p + 1\<rparr>,
                      sh\<lparr>size_levels := size_levels sh + 1\<rparr>)
                else (p, sh))"
    and "shop_keydown K_5 (p, sh) =
           Inr (if 0 < magnet_cost c \<and> magnet_cost c \<le> coins p
                then (p\<lparr>coins := coins p - magnet_cost c,
                        magnet_radius := magnet_radius p + 60\<rparr>,
                      sh\<lparr>magnet_levels := magnet_levels sh + 1\<rparr>)
                else (p, sh))"
    and "shop_keydown K_6 (p, sh) =
           Inr (if 0 < hp_cost c \<and> hp_cost c \<le> coins p
                then (p\<lparr>coins := coins p - hp_cost c,
                        max_health_bonus := max_health_bonus p + 1,
                        health := min (PLAYER_MAX_HEALTH + (max_health_bonus p + 1))
                                    (health p + 1)\<rparr>,
                      sh\<lparr>hp_levels := hp_levels sh + 1\<rparr>)
                else (p, sh))"
    and "shop_keydown K_7 (p, sh) =
           Inr (if shop_page sh = 1 \<and> 0 < dmg_cost c \<and> dmg_cost c \<le> coins p
                then (p\<lparr>coins := coins p - dmg_cost c,
                        bullet_damage_level := bullet_damage_level p + 1\<rparr>, sh)
                else (p, sh))"
    and "shop_keydown K_8 (p, sh) =
           Inr (if shop_page sh = 1 \<and> 0 < coin_cost c \<and> coin_cost c \<le> coins p
                then (p\<lparr>coins := coins p - coin_cost c,
                        coin_gain_level := coin_gain_level p + 1\<rparr>, sh)
                else (p, sh))"
    and "shop_keydown K_KP1 (p, sh) = shop_keydown K_1 (p, sh)"
    and "shop_keydown K_KP2 (p, sh) = shop_keydown K_2 (p, sh)"
    and "shop_keydown K_KP3 (p, sh) = shop_keydown K_3 (p, sh)"
    and "shop_keydown K_KP4 (p, sh) = shop_keydown K_4 (p, sh)"
    and "shop_keydown K_KP5 (p, sh) = shop_keydown K_5 (p, sh)"
    and "shop_keydown K_KP6 (p, sh) = shop_keydown K_6 (p, sh)"
    and "shop_keydown K_KP7 (p, sh) = shop_keydown K_7 (p, sh)"
    and "shop_keydown K_KP8 (p, sh) = shop_keydown K_8 (p, sh)"
  by (simp_all add: shop_keydown_purchase [OF assms] key_purchase_def buy_def upgrade_defs
        max_health_def)

text \<open>
  The click handler never reads the costs of the two upgrades of page 2 and never
  changes their levels: the branches for them come after the branches for the indices
  0 and 1 and are not reached.
\<close>

lemma click_button_page_two_dead:
  "click_button (c\<lparr>dmg_cost := x, coin_cost := y\<rparr>) idx ps = click_button c idx ps"
  "bullet_damage_level (fst (click_button c idx ps)) = bullet_damage_level (fst ps)"
  "coin_gain_level (fst (click_button c idx ps)) = coin_gain_level (fst ps)"
  by (simp_all add: click_button_def buy_def upgrade_defs split_beta Let_def)

text \<open>
  Claim C5 holds of the key handler (\<open>shop_keydown_effects\<close>, \<open>shop_keys_coins\<close>) and fails
  for a click on page 2 of the shop. With the damage upgrade maxed, so that its cost is
  0, and 15 coins, a click on its button, the first of the page, buys the speed upgrade
  for 10 coins, where key 7 changes nothing. With 13 coins, one less than the coin
  upgrade costs, a click on its button, the second of the page, buys the fire-rate
  upgrade for 12 coins, where key 8 changes nothing.
\<close>

theorem click_buys_another_upgrade:
  "compute_costs ((shopper 15)\<lparr>bullet_damage_level := 5\<rparr>) page_two =
     Inr \<lparr>speed_cost = 10, firerate_cost = 12, pierce_cost = 15, size_cost = 12,
          magnet_cost = 10, hp_cost = 20, dmg_cost = 0, coin_cost = 14\<rparr> \<and>
   shop_click [0] ((shopper 15)\<lparr>bullet_damage_level := 5\<rparr>, page_two) =
     Inr ((shopper 5)\<lparr>bullet_damage_level := 5, speed_multiplier := 1.12\<rparr>,
          page_two\<lparr>speed_levels := 1\<rparr>) \<and>
   shop_keydown K_7 ((shopper 15)\<lparr>bullet_damage_level := 5\<rparr>, page_two) =
     Inr ((shopper 15)\<lparr>bullet_damage_level := 5\<rparr>, page_two) \<and>
   shop_click [1] (shopper 13, page_two) =
     Inr ((shopper 1)\<lparr>fire_rate_multiplier := 1.15\<rparr>, page_two\<lparr>firerate_levels := 1\<rparr>) \<and>
   shop_keydown K_8 (shopper 13, page_two) = Inr (shopper 13, page_two)"
  by (simp add: shop_click_def shop_keydown_def click_button_def compute_costs_def
        bind_error_def cost_entry_def py_index_def shopper_def page_two_def fresh_shop_def
        Player_def buy_def upgrade_speed_def upgrade_firerate_def Let_def)

theorem click_buys_another_upgrade_witness:
  "map_sum id (coins \<circ> fst)
     (shop_click [0] ((shopper 15)\<lparr>bullet_damage_level := 5\<rparr>, page_two)) = Inr 5 \<and>
   map_sum id (speed_levels \<circ> snd)
     (shop_click [0] ((shopper 15)\<lparr>bullet_damage_level := 5\<rparr>, page_two)) = Inr 1"
  using click_buys_another_upgrade
  by (simp add: shopper_def page_two_def fresh_shop_def)

subsection \<open>Collisions: bullets vs enemies\<close>

lemma struck_footprint:
  "struck bs e \<longleftrightarrow>
     (\<exists>h \<in> set (map footprint bs).
        circle_intersects_circle (position e) (radius e) (fst h) (snd h))"
  by (simp add: struck_def footprint_def)

lemma struck_cong: "map footprint bs' = map footprint bs \<Longrightarrow> struck bs' e = struck bs e"
  by (simp only: struck_footprint)

lemma struck_Cons:
  "struck (b # bs) e \<longleftrightarrow>
     circle_intersects_circle (position e) (radius e) (position b) (radius b) \<or> struck bs e"
  by (simp add: struck_def)

lemma footprint_consume [simp]: "footprint (consume b) = footprint b"
  by (simp add: footprint_def consume_def)

lemma bullets_loop_result:
  "bullets_loop e bs w = (dead, e', bs', w') \<Longrightarrow>
     e' = (if struck bs e then e\<lparr>health := health e - 1\<rparr> else e) \<and>
     dead = (struck bs e \<and> health e - 1 \<le> 0) \<and>
     map footprint bs' = map footprint bs"
proof (induction bs arbitrary: dead e' bs' w')
  case Nil
  then show ?case by (simp add: struck_def)
next
  case (Cons b bs)
  show ?case
  proof (cases "circle_intersects_circle (position e) (radius e) (position b) (radius b)")
    case True
    with Cons.prems show ?thesis
      by (auto simp add: struck_Cons Let_def split: if_splits)
  next
    case False
    obtain d1 e1 bs1 w1 where r: "bullets_loop e bs w = (d1, e1, bs1, w1)"
      by (cases "bullets_loop e bs w") auto
    from Cons.IH [OF r] Cons.prems False r show ?thesis
      by (auto simp add: struck_Cons)
  qed
qed

lemma bullets_kill_effects [simp]: "bullets (kill_effects e w) = bullets w"
  by (simp add: kill_effects_def aoe_explosion_def boss_drop_def normal_drop_def Let_def
        split_beta)

lemma bullets_loop_bullets:
  "bullets_loop e bs w = (dead, e', bs', w') \<Longrightarrow> bullets w' = bullets w"
proof (induction bs arbitrary: dead e' bs' w')
  case Nil
  then show ?case by simp
next
  case (Cons b bs)
  then show ?case
    by (auto simp add: Let_def split: if_splits prod.splits)
qed

lemma enemies_loop_result:
  "enemies_loop es alive w = (alive', w') \<Longrightarrow>
     alive' = alive @ concat (map (survive (bullets w)) es) \<and>
     map footprint (bullets w') = map footprint (bullets w)"
proof (induction es arbitrary: alive w)
  case Nil
  then show ?case by simp
next
  case (Cons e es)
  obtain dead e1 bs1 w1 where r: "bullets_loop e (bullets w) w = (dead, e1, bs1, w1)"
    by (cases "bullets_loop e (bullets w) w") auto
  note res = bullets_loop_result [OF r]
  let ?w2 = "w1\<lparr>bullets := bs1\<rparr>"
  let ?alive2 = "if \<not> dead then alive @ [e1] else alive"
  from Cons.prems r have run: "enemies_loop es ?alive2 ?w2 = (alive', w')"
    by simp
  have fp: "map footprint (bullets ?w2) = map footprint (bullets w)"
    using res by simp
  have st: "\<And>x. struck (bullets ?w2) x = struck (bullets w) x"
    using fp by (rule struck_cong)
  have sv: "survive (bullets ?w2) = survive (bullets w)"
    by (rule ext) (simp only: survive_def st)
  have hd: "?alive2 = alive @ survive (bullets w) e"
    using res by (auto simp add: survive_def)
  from Cons.IH [OF run] show ?case
    by (simp only: sv hd fp) simp
qed


text \<open>
  Claim C3. In the bullet-vs-enemy pass the inner loop takes exactly one point of
  health from an enemy that some bullet of the list overlaps and nothing from any other
  enemy, so no enemy loses more than one point in a pass; the enemy dies when that
  point brings its health to zero or below. The enemies left by the pass are therefore
  those given by \<open>survive\<close>, and the \<open>damage\<close> fields of the bullets have no influence on
  them.
\<close>

theorem one_damage_per_enemy:
  "health (fst (snd (bullets_loop e bs w))) =
     (if struck bs e then health e - 1 else health e) \<and>
   fst (bullets_loop e bs w) = (struck bs e \<and> health e - 1 \<le> 0) \<and>
   fst (enemies_loop es [] w) = concat (map (survive (bullets w)) es) \<and>
   fst (enemies_loop es [] (w\<lparr>bullets := map (\<lambda>b. b\<lparr>damage := d b\<rparr>) (bullets w)\<rparr>)) =
     fst (enemies_loop es [] w)"
proof -
  obtain dead e1 bs1 w1 where r: "bullets_loop e bs w = (dead, e1, bs1, w1)"
    by (cases "bullets_loop e bs w") auto
  note one = bullets_loop_result [OF r]
  let ?w = "w\<lparr>bullets := map (\<lambda>b. b\<lparr>damage := d b\<rparr>) (bullets w)\<rparr>"
  obtain a1 v1 where r1: "enemies_loop es [] w = (a1, v1)"
    by (cases "enemies_loop es [] w") auto
  obtain a2 v2 where r2: "enemies_loop es [] ?w = (a2, v2)"
    by (cases "enemies_loop es [] ?w") auto
  have fp: "map footprint (bullets ?w) = map footprint (bullets w)"
    by (simp add: footprint_def comp_def)
  have sv: "survive (bullets ?w) = survive (bullets w)"
    by (rule ext) (simp only: survive_def struck_cong [OF fp])
  have "a1 = concat (map (survive (bullets w)) es)"
    using enemies_loop_result [OF r1] by simp
  moreover have "a2 = concat (map (survive (bullets w)) es)"
    using enemies_loop_result [OF r2] by (simp only: sv) simp
  ultimately show ?thesis
    using one by (simp add: r r1 r2)
qed

lemmas scenario_defs = no_overlay_def arena_def pellet_def grunt_def boss_def

lemmas run_defs =
  collide_bullets_enemies_def simulation_active_def player_is_alive_def Player_def
  EnemySpawner_def kill_effects_def aoe_explosion_def boss_drop_def normal_drop_def on_kill_def consume_def is_alive_def
  circle_intersects_circle_def distance_to_def vlength_def length_squared_def vsub_def
  random_random_def random_uniform_def should_spawn_boss_def on_boss_killed_def
  should_spawn_def config_defs Let_def

theorem one_damage_per_enemy_witness:
  "struck [pellet 0\<lparr>damage := 5\<rparr>, pellet 0\<lparr>damage := 7\<rparr>] (boss 3) \<and>
   fst (enemies_loop [boss 3, grunt] []
          (arena\<lparr>bullets := [pellet 0\<lparr>damage := 5\<rparr>, pellet 0\<lparr>damage := 7\<rparr>]\<rparr>)) =
     [boss 2]"
proof -
  have s: "\<And>e. position e = (100, 100) \<Longrightarrow> 0 \<le> radius e \<Longrightarrow>
             struck [pellet 0\<lparr>damage := 5\<rparr>, pellet 0\<lparr>damage := 7\<rparr>] e"
    by (simp add: struck_def pellet_def circle_intersects_circle_def distance_to_def
          vlength_def length_squared_def vsub_def)
  have "fst (enemies_loop [boss 3, grunt] []
          (arena\<lparr>bullets := [pellet 0\<lparr>damage := 5\<rparr>, pellet 0\<lparr>damage := 7\<rparr>]\<rparr>)) =
        concat (map (survive (bullets
          (arena\<lparr>bullets := [pellet 0\<lparr>damage := 5\<rparr>, pellet 0\<lparr>damage := 7\<rparr>]\<rparr>)))
          [boss 3, grunt])"
    using one_damage_per_enemy
      [where es = "[boss 3, grunt]" and
          w = "arena\<lparr>bullets := [pellet 0\<lparr>damage := 5\<rparr>, pellet 0\<lparr>damage := 7\<rparr>]\<rparr>"]
    by blast
  then show ?thesis
    using s [of "boss 3"] s [of grunt]
    by (simp add: survive_def) (simp add: boss_def grunt_def)
qed

lemma boss_coins_append:
  "\<exists>new. fst (boss_coins n pos cs g) = cs @ new \<and> length new = n \<and>
         map coin_value new = replicate n 2 \<and> map position new = replicate n pos"
proof (induction n arbitrary: cs g)
  case 0
  then show ?case by simp
next
  case (Suc n)
  let ?c = "\<lparr>position = pos, radius = 6, coin_value = 2,
             coin_velocity = (fst (random_uniform (- 180) 180 g),
               fst (random_uniform (- 180) 180 (snd (random_uniform (- 180) 180 g))))\<rparr>"
  let ?g = "snd (random_uniform (- 180) 180 (snd (random_uniform (- 180) 180 g)))"
  from Suc.IH [of "cs @ [?c]" ?g] obtain new where
    n: "fst (boss_coins n pos (cs @ [?c]) ?g) = (cs @ [?c]) @ new" "length new = n"
       "map coin_value new = replicate n 2" "map position new = replicate n pos"
    by blast
  have "fst (boss_coins (Suc n) pos cs g) = cs @ (?c # new)"
    using n(1) by (simp add: split_beta Let_def)
  moreover have "length (?c # new) = Suc n" using n(2) by simp
  moreover have "map coin_value (?c # new) = replicate (Suc n) 2" using n(3) by simp
  moreover have "map position (?c # new) = replicate (Suc n) pos" using n(4) by simp
  ultimately show ?case by blast
qed

lemma kill_effects_boss:
  assumes "is_boss e"
  shows "spawner (kill_effects e w) =
           (on_boss_killed (spawner w))\<lparr>kills_this_level := 1\<rparr>"
    and "coin_list (kill_effects e w) = fst (boss_coins 14 (position e) (coin_list w) (rng w))"
    and "score (kill_effects e w) = score w + 1"
  using assms
  by (simp_all add: kill_effects_def aoe_explosion_def boss_drop_def Let_def split_beta on_boss_killed_def)

text \<open>
  Claim C1, on the scenario of the spec: a boss with one point of health and one bullet
  on it. The pass creates exactly 14 coins of value 2 at the position of the boss,
  raises the level from 1 to 2, clears \<open>boss_active\<close> and starts the level transition, so
  that \<open>should_spawn\<close> is false; but the kill counter is 1 at the end of the pass, not 0,
  since the pass counts the kill of the boss after \<open>on_boss_killed\<close> has reset the
  counter.
\<close>

theorem boss_kill_pass:
  "collide_bullets_enemies 960 540 no_overlay
     (arena\<lparr>bullets := [pellet 0], enemies := [boss 1],
            spawner := EnemySpawner\<lparr>kills_this_level := 30, boss_active := True\<rparr>\<rparr>) =
   arena\<lparr>score := 1,
         coin_list := replicate 14 \<lparr>position = (100, 100), radius = 6, coin_value = 2,
                                   coin_velocity = (0, 0)\<rparr>,
         spawner := EnemySpawner\<lparr>level := 2, kills_this_level := 1,
           current_interval := 1.045, timer := 1.045, level_transition_timer := 1.2\<rparr>\<rparr>"
  by (simp add: scenario_defs run_defs eval_nat_numeral)

theorem boss_kill_pass_witness:
  "kills_this_level (spawner (collide_bullets_enemies 960 540 no_overlay
     (arena\<lparr>bullets := [pellet 0], enemies := [boss 1],
            spawner := EnemySpawner\<lparr>kills_this_level := 30, boss_active := True\<rparr>\<rparr>))) = 1 \<and>
   \<not> should_spawn (spawner (collide_bullets_enemies 960 540 no_overlay
     (arena\<lparr>bullets := [pellet 0], enemies := [boss 1],
            spawner := EnemySpawner\<lparr>kills_this_level := 30, boss_active := True\<rparr>\<rparr>)))"
  using boss_kill_pass
  by (simp add: should_spawn_def)

lemma kill_effects_plain:
  assumes "rng w = (\<lambda>n. 1 / 2)" "aoe_on_kill_level (player w) = 0"
    "lifesteal_level (player w) = 0" "\<not> is_boss e"
  shows "kill_effects e w =
           w\<lparr>score := score w + 1,
             spawner := (spawner w)\<lparr>kills_this_level := kills_this_level (spawner w) + 1\<rparr>\<rparr>"
proof -
  have a: "aoe_explosion e (w\<lparr>score := score w + 1, player := on_kill (player w)\<rparr>) =
             w\<lparr>score := score w + 1\<rparr>"
    using assms by (simp add: aoe_explosion_def on_kill_def)
  have n: "normal_drop e (w\<lparr>score := score w + 1\<rparr>) = w\<lparr>score := score w + 1\<rparr>"
    using assms by (simp add: normal_drop_def random_random_def NORMAL_DROP_CHANCE_def)
  show ?thesis
    using assms(4) by (simp add: kill_effects_def a n)
qed

lemma grunt_overlap:
  "position b = (100, 100) \<Longrightarrow> 0 \<le> radius b \<Longrightarrow>
     circle_intersects_circle (position grunt) (radius grunt) (position b) (radius b)"
  by (simp add: grunt_def circle_intersects_circle_def distance_to_def vlength_def
        length_squared_def vsub_def)

lemma bullets_loop_grunt:
  assumes "rng w = (\<lambda>n. 1 / 2)" "aoe_on_kill_level (player w) = 0"
    "lifesteal_level (player w) = 0" "position b = (100, 100)" "0 \<le> radius b"
  shows "bullets_loop grunt (b # bs) w =
           (True, grunt\<lparr>health := 0\<rparr>, consume b # bs,
            w\<lparr>score := score w + 1,
              spawner := (spawner w)\<lparr>kills_this_level := kills_this_level (spawner w) + 1\<rparr>\<rparr>)"
proof -
  have k: "kill_effects (grunt\<lparr>health := 0\<rparr>) w =
           w\<lparr>score := score w + 1,
             spawner := (spawner w)\<lparr>kills_this_level := kills_this_level (spawner w) + 1\<rparr>\<rparr>"
    using assms by (intro kill_effects_plain) (simp_all add: grunt_def)
  have h: "health grunt - 1 = 0" by (simp add: grunt_def)
  show ?thesis
    using grunt_overlap [OF assms(4,5)] by (simp add: h k)
qed

lemma enemies_loop_grunt:
  assumes "rng w = (\<lambda>n. 1 / 2)" "aoe_on_kill_level (player w) = 0"
    "lifesteal_level (player w) = 0" "bullets w = b # bs" "position b = (100, 100)"
    "0 \<le> radius b"
  shows "enemies_loop (grunt # es) alive w =
           enemies_loop es alive
             (w\<lparr>score := score w + 1,
               spawner := (spawner w)\<lparr>kills_this_level := kills_this_level (spawner w) + 1\<rparr>,
               bullets := consume b # bs\<rparr>)"
  using bullets_loop_grunt [OF assms(1,2,3,5,6), of bs] assms(4) by simp

lemma two_kills:
  "collide_bullets_enemies 960 540 no_overlay
     (arena\<lparr>bullets := [pellet 0], enemies := [grunt, grunt]\<rparr>) =
   arena\<lparr>score := 2, spawner := EnemySpawner\<lparr>kills_this_level := 2\<rparr>\<rparr>"
  by (simp add: collide_bullets_enemies_def simulation_active_def player_is_alive_def
        no_overlay_def arena_def Player_def PLAYER_MAX_HEALTH_def enemies_loop_grunt
        pellet_def consume_def is_alive_def should_spawn_boss_def EnemySpawner_def
        LEVEL_KILLS_TO_BOSS_BASE_def LEVEL_KILLS_TO_BOSS_INC_def
        del: enemies_loop.simps(2))

lemma four_kills:
  "collide_bullets_enemies 960 540 no_overlay
     (arena\<lparr>bullets := [pellet 2], enemies := [grunt, grunt, grunt, grunt]\<rparr>) =
   arena\<lparr>score := 4, spawner := EnemySpawner\<lparr>kills_this_level := 4\<rparr>\<rparr>"
  by (simp add: collide_bullets_enemies_def simulation_active_def player_is_alive_def
        no_overlay_def arena_def Player_def PLAYER_MAX_HEALTH_def enemies_loop_grunt
        pellet_def consume_def is_alive_def should_spawn_boss_def EnemySpawner_def
        LEVEL_KILLS_TO_BOSS_BASE_def LEVEL_KILLS_TO_BOSS_INC_def
        del: enemies_loop.simps(2))

text \<open>
  Claim C2, on two inputs. A bullet without pierce on two enemies of one health each
  kills both in one pass: the first kill sets its lifetime to zero, but the loop of the
  second enemy still tests it, and it is removed only after the pass. In the same way a
  bullet with pierce 2 on four such enemies kills all four, one more than its three
  hits allow.
\<close>

theorem spent_bullet_still_hits:
  "collide_bullets_enemies 960 540 no_overlay
     (arena\<lparr>bullets := [pellet 0], enemies := [grunt, grunt]\<rparr>) =
   arena\<lparr>score := 2, spawner := EnemySpawner\<lparr>kills_this_level := 2\<rparr>\<rparr> \<and>
   collide_bullets_enemies 960 540 no_overlay
     (arena\<lparr>bullets := [pellet 2], enemies := [grunt, grunt, grunt, grunt]\<rparr>) =
   arena\<lparr>score := 4, spawner := EnemySpawner\<lparr>kills_this_level := 4\<rparr>\<rparr>"
  using two_kills four_kills by simp

theorem spent_bullet_still_hits_witness:
  "enemies (collide_bullets_enemies 960 540 no_overlay
     (arena\<lparr>bullets := [pellet 0], enemies := [grunt, grunt]\<rparr>)) = [] \<and>
   score (collide_bullets_enemies 960 540 no_overlay
     (arena\<lparr>bullets := [pellet 0], enemies := [grunt, grunt]\<rparr>)) = 2 \<and>
   score (collide_bullets_enemies 960 540 no_overlay
     (arena\<lparr>bullets := [pellet 2], enemies := [grunt, grunt, grunt, grunt]\<rparr>)) = 4"
  using spent_bullet_still_hits
  by (simp add: arena_def)

subsection \<open>Loading the save file\<close>

lemmas load_defs =
  load_save_def try_body_def assign_int_def assign_float_def py_int_def
  py_float_def dict_get_def loaded_zero_def max_health_def

lemma py_int_default [simp]: "py_int parse (JInt n) = Inr n"
  by (simp add: py_int_def)

lemma py_float_default [simp]: "py_float parse (JFloat f) = Inr f"
  by (simp add: py_float_def)

text \<open>
  What holds of every save file: when no conversion raises, the health is
  \<open>max_health()\<close>; and a field that the file does not hold ends with its baseline value,
  whether a conversion raises or not.
\<close>

lemma load_save_heals:
  assumes "run_statements (try_body parse_int parse_float data) (p, l) = Some ((p', l'), None)"
  shows "health p' = max_health p'"
  using assms
  by (auto simp add: try_body_def assign_int_def assign_float_def max_health_def
        split: sum.splits pyfloat.splits)

lemma load_save_missing_defaults:
  shows "data ''coins'' = None \<Longrightarrow>
       (case load_save parse_int parse_float (Object data) (Player pos) of
          None \<Rightarrow> True | Some (p', l') \<Rightarrow> coins p' = 0)"
    and "data ''speed_multiplier'' = None \<Longrightarrow>
       (case load_save parse_int parse_float (Object data) (Player pos) of
          None \<Rightarrow> True | Some (p', l') \<Rightarrow> speed_multiplier p' = 1)"
    and "data ''fire_rate_multiplier'' = None \<Longrightarrow>
       (case load_save parse_int parse_float (Object data) (Player pos) of
          None \<Rightarrow> True | Some (p', l') \<Rightarrow> fire_rate_multiplier p' = 1)"
    and "data ''bullet_size_level'' = None \<Longrightarrow>
       (case load_save parse_int parse_float (Object data) (Player pos) of
          None \<Rightarrow> True | Some (p', l') \<Rightarrow> bullet_size_level p' = 0)"
    and "data ''bullet_pierce_level'' = None \<Longrightarrow>
       (case load_save parse_int parse_float (Object data) (Player pos) of
          None \<Rightarrow> True | Some (p', l') \<Rightarrow> bullet_pierce_level p' = 0)"
    and "data ''magnet_radius'' = None \<Longrightarrow>
       (case load_save parse_int parse_float (Object data) (Player pos) of
          None \<Rightarrow> True | Some (p', l') \<Rightarrow> magnet_radius p' = 60)"
    and "data ''max_health_bonus'' = None \<Longrightarrow>
       (case load_save parse_int parse_float (Object data) (Player pos) of
          None \<Rightarrow> True | Some (p', l') \<Rightarrow> max_health_bonus p' = 0)"
    and "data ''armor'' = None \<Longrightarrow>
       (case load_save parse_int parse_float (Object data) (Player pos) of
          None \<Rightarrow> True | Some (p', l') \<Rightarrow> armor p' = 0)"
    and "data ''bullet_damage_level'' = None \<Longrightarrow>
       (case load_save parse_int parse_float (Object data) (Player pos) of
          None \<Rightarrow> True | Some (p', l') \<Rightarrow> bullet_damage_level p' = 0)"
    and "data ''coin_gain_level'' = None \<Longrightarrow>
       (case load_save parse_int parse_float (Object data) (Player pos) of
          None \<Rightarrow> True | Some (p', l') \<Rightarrow> coin_gain_level p' = 0)"
    and "data ''speed_levels'' = None \<Longrightarrow>
       (case load_save parse_int parse_float (Object data) (Player pos) of
          None \<Rightarrow> True | Some (p', l') \<Rightarrow> loaded_speed l' = 0)"
    and "data ''firerate_levels'' = None \<Longrightarrow>
       (case load_save parse_int parse_float (Object data) (Player pos) of
          None \<Rightarrow> True | Some (p', l') \<Rightarrow> loaded_firerate l' = 0)"
    and "data ''pierce_levels'' = None \<Longrightarrow>
       (case load_save parse_int parse_float (Object data) (Player pos) of
          None \<Rightarrow> True | Some (p', l') \<Rightarrow> loaded_pierce l' = 0)"
    and "data ''size_levels'' = None \<Longrightarrow>
       (case load_save parse_int parse_float (Object data) (Player pos) of
          None \<Rightarrow> True | Some (p', l') \<Rightarrow> loaded_size l' = 0)"
    and "data ''magnet_levels'' = None \<Longrightarrow>
       (case load_save parse_int parse_float (Object data) (Player pos) of
          None \<Rightarrow> True | Some (p', l') \<Rightarrow> loaded_magnet l' = 0)"
    and "data ''hp_levels'' = None \<Longrightarrow>
       (case load_save parse_int parse_float (Object data) (Player pos) of
          None \<Rightarrow> True | Some (p', l') \<Rightarrow> loaded_hp l' = 0)"
  by (simp_all add: load_save_def try_body_def assign_int_def assign_float_def
        dict_get_def Player_def loaded_zero_def split: sum.splits pyfloat.splits)

text \<open>
  The conversions raise on numbers outside the range of \<open>int\<close> and \<open>float\<close>, and the
  exception has the same effect as any other: with \<open>"speed_multiplier": 10 ** 309\<close>
  nothing is restored and nothing is healed.
\<close>

lemma load_save_overflow:
  "py_float parse_float (JInt (10 ^ 309)) = Inl OverflowError"
  "py_int parse_int (JFloat PosInf) = Inl OverflowError"
  "py_int parse_int (JFloat NaN) = Inl ValueError"
  "load_save parse_int parse_float
     (Object [''speed_multiplier'' \<mapsto> JInt (10 ^ 309), ''max_health_bonus'' \<mapsto> JInt 2])
     (Player pos) = Some (Player pos, loaded_zero)"
  by (simp_all add: load_defs float_overflows_def Player_def)

text \<open>
  Claim C9, on a save file that holds \<open>{"max_health_bonus": 2, "armor": null}\<close>. The
  conversion of \<open>armor\<close> raises, the handler swallows the exception, and the run goes on
  with the bonus restored but the health still 5, below \<open>max_health()\<close>, which is 7: the
  statement that heals is after the one that raised. Without the \<open>armor\<close> entry the same
  file gives health 7.
\<close>

theorem load_save_partial_restore:
  "load_save parse_int parse_float broken_save (Player (480, 270)) =
     Some ((Player (480, 270))\<lparr>max_health_bonus := 2\<rparr>, loaded_zero) \<and>
   health ((Player (480, 270))\<lparr>max_health_bonus := 2\<rparr>) = 5 \<and>
   max_health ((Player (480, 270))\<lparr>max_health_bonus := 2\<rparr>) = 7 \<and>
   load_save parse_int parse_float (Object [''max_health_bonus'' \<mapsto> JInt 2])
       (Player (480, 270)) =
     Some ((Player (480, 270))\<lparr>max_health_bonus := 2, health := 7\<rparr>, loaded_zero)"
  by (simp add: broken_save_def load_defs Player_def PLAYER_MAX_HEALTH_def PLAYER_RADIUS_def)

theorem load_save_partial_restore_witness:
  "map_option (health \<circ> fst)
     (load_save (\<lambda>s. None) (\<lambda>s. None) broken_save (Player (480, 270))) = Some 5 \<and>
   map_option (max_health \<circ> fst)
     (load_save (\<lambda>s. None) (\<lambda>s. None) broken_save (Player (480, 270))) = Some 7"
  using load_save_partial_restore [of "\<lambda>s. None" "\<lambda>s. None"]
  by simp

subsection \<open>The counters \<open>crit_level\<close> and \<open>coin_gain_level\<close>\<close>


lemma with_levels_sel [simp]:
  "aoe_on_kill_level (with_levels c k p) = aoe_on_kill_level p"
  "armor (with_levels c k p) = armor p"
  "health (with_levels c k p) = health p"
  by (simp_all add: with_levels_def)


lemma world_with_levels_sel [simp]:
  "player (world_with_levels c k w) = with_levels c k (player w)"
  "bullets (world_with_levels c k w) = bullets w"
  "enemies (world_with_levels c k w) = enemies w"
  "coin_list (world_with_levels c k w) = coin_list w"
  "explosions (world_with_levels c k w) = explosions w"
  "spawner (world_with_levels c k w) = spawner w"
  "score (world_with_levels c k w) = score w"
  "rng (world_with_levels c k w) = rng w"
  by (simp_all add: world_with_levels_def)

















end
